theory Spec2Isabelle
  imports Main
begin

section \<open>JavaScript values used by the construct\<close>

text \<open>
  The construct is TypeScript. Three pieces of the language's semantics are visible in its
  behaviour: the truthiness test of \<^verbatim>\<open>if (a && b)\<close>, the conversion of a number to a
  string inside a template literal, and the conversion of \<^verbatim>\<open>undefined\<close> to a string by
  \<^verbatim>\<open>+\<close>. An optional property is an \<open>option\<close>: \<open>None\<close> is \<^verbatim>\<open>undefined\<close>.

  Strings are \<open>char list\<close>s holding the UTF-8 bytes of the source text.

  The program never computes with a number: it only tests one for truthiness and prints it.
  A Number value is therefore given by what ECMA-262 \<^verbatim>\<open>Number::toString\<close> reads off it, its
  sign and its shortest decimal digits: \<open>Finite neg m e\<close> is the number printed as
  \<open>(-1)^neg * m * 10^e\<close>, zero being \<open>m = 0\<close>. The literal \<^verbatim>\<open>0.003\<close> is
  \<open>Finite False 3 (- 3)\<close>. Every Number value has this form; the type also holds digit
  strings longer than a double can have, which does no harm to what is proved for all of it.
\<close>

datatype number = NaN | Infinity bool | Finite bool nat int

text \<open>
  \<^verbatim>\<open>ToBoolean\<close>: \<^verbatim>\<open>undefined\<close>, zero and \<^verbatim>\<open>NaN\<close> are falsy, every other number is
  truthy.
\<close>

fun Number_toBoolean :: "number \<Rightarrow> bool" where
  "Number_toBoolean NaN = False"
| "Number_toBoolean (Infinity neg) = True"
| "Number_toBoolean (Finite neg m e) = (m \<noteq> 0)"

fun ToBoolean :: "number option \<Rightarrow> bool" where
  "ToBoolean None = False"
| "ToBoolean (Some x) = Number_toBoolean x"

definition digit_char :: "nat \<Rightarrow> char" where
  "digit_char d = ''0123456789'' ! d"

function digits10 :: "nat \<Rightarrow> string" where
  "digits10 n =
     (if n < 10 then [digit_char n] else digits10 (n div 10) @ [digit_char (n mod 10)])"
  by pat_completeness auto
termination
  by (relation "measure (\<lambda>n. n)") auto

declare digits10.simps [simp del]

text \<open>Dropping trailing zeros of the digits gives the \<open>s\<close> with \<open>k\<close> as small as possible.\<close>

function shortest :: "nat \<Rightarrow> int \<Rightarrow> nat \<times> int" where
  "shortest m e =
     (if m \<noteq> 0 \<and> m mod 10 = 0 then shortest (m div 10) (e + 1) else (m, e))"
  by pat_completeness auto
termination
  by (relation "measure (\<lambda>(m, e). m)") auto

declare shortest.simps [simp del]

definition sign_prefix :: "bool \<Rightarrow> string" where
  "sign_prefix neg = (if neg then ''-'' else '''')"

text \<open>
  \<^verbatim>\<open>Number::toString(x, 10)\<close> for a positive finite \<open>x\<close>: with \<open>s\<close> the digits, \<open>k\<close> their
  count and \<open>n\<close> the position of the decimal point, plain notation for \<open>-5 \<le> n \<le> 21\<close> and
  exponential notation outside.
\<close>

definition Number_toString_finite :: "nat \<Rightarrow> int \<Rightarrow> string" where
  "Number_toString_finite m e =
     (let (s', e') = shortest m e;
          s = digits10 s';
          k = int (length s);
          n = k + e'
      in if - 5 \<le> n \<and> n \<le> 21 then
           (if k \<le> n then s @ replicate (nat (n - k)) (CHR ''0'')
            else if 0 < n then take (nat n) s @ ''.'' @ drop (nat n) s
            else ''0.'' @ replicate (nat (- n)) (CHR ''0'') @ s)
         else
           (let x = n - 1;
                c = (if x < 0 then ''-'' else ''+'');
                d = digits10 (nat \<bar>x\<bar>)
            in if k = 1 then s @ ''e'' @ c @ d
               else take 1 s @ ''.'' @ drop 1 s @ ''e'' @ c @ d))"

fun Number_toString :: "number \<Rightarrow> string" where
  "Number_toString NaN = ''NaN''"
| "Number_toString (Infinity neg) = sign_prefix neg @ ''Infinity''"
| "Number_toString (Finite neg m e) =
     (if m = 0 then ''0'' else sign_prefix neg @ Number_toString_finite m e)"

text \<open>
  \<^verbatim>\<open>ToString\<close> of an optional number, as a template literal applies it, and of an
  optional string, as \<^verbatim>\<open>+\<close> applies it to its operands.
\<close>

fun ToString_number :: "number option \<Rightarrow> string" where
  "ToString_number None = ''undefined''"
| "ToString_number (Some x) = Number_toString x"

fun ToString :: "string option \<Rightarrow> string" where
  "ToString None = ''undefined''"
| "ToString (Some s) = s"

section \<open>Descriptors of the CloudWatch library\<close>

text \<open>
  \<^verbatim>\<open>Metric\<close>, \<^verbatim>\<open>MathExpression\<close>, the widgets and \<^verbatim>\<open>Row\<close> are classes of the
  library \<^verbatim>\<open>aws-cdk-lib/aws-cloudwatch\<close>. The construct only builds them from property
  bags and hands them to the dashboard, so each is the record of the properties it was built
  from. A property that some call of this program omits is an \<open>option\<close>. Field names carry a
  prefix of their class, because two records cannot share a field name. The library's own
  validation of these properties is outside the repository and is not part of the model.

  One constructor does more than keep its properties, and what it does shows in the
  dashboard: \<^verbatim>\<open>new MathExpression(props)\<close> takes the period \<^verbatim>\<open>props.period\<close>, or five
  minutes when there is none, and gives that period to every metric of \<^verbatim>\<open>usingMetrics\<close>,
  whatever period the metric was built with.
\<close>

datatype time_unit = Milliseconds | Seconds | Minutes | Hours | Days

datatype duration = Duration nat time_unit

definition Duration_minutes :: "nat \<Rightarrow> duration" where
  "Duration_minutes amount = Duration amount Minutes"

datatype stats = Stats_SAMPLE_COUNT | Stats_AVERAGE | Stats_SUM | Stats_MINIMUM | Stats_MAXIMUM

datatype shading = Shading_NONE | Shading_ABOVE | Shading_BELOW

datatype legend_position = LegendPosition_BOTTOM | LegendPosition_RIGHT | LegendPosition_HIDDEN

datatype log_query_visualization_type =
  LogQueryVisualizationType_TABLE | LogQueryVisualizationType_LINE
| LogQueryVisualizationType_STACKEDAREA | LogQueryVisualizationType_BAR
| LogQueryVisualizationType_PIE

text \<open>The two named colours of the library's \<^verbatim>\<open>Color\<close> class that the program uses.\<close>

definition Color_RED :: string where
  "Color_RED = ''#d62728''"

definition Color_ORANGE :: string where
  "Color_ORANGE = ''#ff7f0e''"

record metric_props =
  m_namespace :: string
  m_metricName :: string
  m_dimensionsMap :: "(string \<times> string) list option"
  m_statistic :: stats
  m_period :: duration
  m_color :: "string option"
  m_label :: "string option"

record math_expression_props =
  e_expression :: string
  e_usingMetrics :: "(string \<times> metric_props) list"
  e_label :: string
  e_period :: "duration option"

datatype imetric = Metric metric_props | MathExpression math_expression_props

definition new_MathExpression :: "math_expression_props \<Rightarrow> imetric" where
  "new_MathExpression props =
     (let period' = (case e_period props of Some p \<Rightarrow> p | None \<Rightarrow> Duration_minutes 5)
      in MathExpression
           (props\<lparr>e_usingMetrics :=
                    map (\<lambda>(name, m). (name, m\<lparr>m_period := period'\<rparr>)) (e_usingMetrics props),
                  e_period := Some period'\<rparr>))"

record yaxis_props =
  y_min :: "nat option"
  y_max :: "nat option"
  y_label :: "string option"
  y_showUnits :: "bool option"

record horizontal_annotation =
  a_color :: string
  a_label :: string
  a_value :: nat
  a_fill :: "shading option"

record text_widget_props =
  t_markdown :: string
  t_width :: nat
  t_height :: "nat option"

record single_value_widget_props =
  sv_title :: string
  sv_metrics :: "imetric list"
  sv_setPeriodToTimeRange :: bool
  sv_width :: nat
  sv_height :: "nat option"
  sv_period :: "duration option"

record graph_widget_props =
  g_title :: string
  g_left :: "imetric list"
  g_leftYAxis :: "yaxis_props option"
  g_leftAnnotations :: "horizontal_annotation list option"
  g_right :: "imetric list option"
  g_rightYAxis :: "yaxis_props option"
  g_period :: "duration option"
  g_width :: nat
  g_height :: "nat option"

record gauge_widget_props =
  gg_title :: string
  gg_metrics :: "imetric list"
  gg_width :: nat
  gg_height :: nat
  gg_period :: duration
  gg_setPeriodToTimeRange :: bool
  gg_liveData :: bool
  gg_leftYAxis :: yaxis_props
  gg_legendPosition :: legend_position
  gg_annotations :: "horizontal_annotation list"

record log_query_widget_props =
  lq_title :: string
  lq_logGroupNames :: "string list"
  lq_queryString :: string
  lq_view :: log_query_visualization_type
  lq_width :: nat
  lq_height :: "nat option"

text \<open>\<^verbatim>\<open>Alarm.fromAlarmArn(scope, id, alarmArn)\<close>: an alarm that exists already, by its ARN.\<close>

datatype ialarm = Alarm_fromAlarmArn string string

record alarm_status_widget_props =
  as_title :: string
  as_alarms :: "ialarm list"
  as_width :: nat
  as_height :: nat

datatype widget =
    Row "widget list"
  | TextWidget text_widget_props
  | SingleValueWidget single_value_widget_props
  | GraphWidget graph_widget_props
  | GaugeWidget gauge_widget_props
  | LogQueryWidget log_query_widget_props
  | AlarmStatusWidget alarm_status_widget_props

text \<open>
  A \<^verbatim>\<open>Dashboard\<close> is its name and its rows. \<^verbatim>\<open>Dashboard.addWidgets(...widgets)\<close> adds one
  row per call: nothing for no widget, the widget itself for one, and a \<^verbatim>\<open>Row\<close> around
  them for several.
\<close>

record dashboard =
  d_dashboardName :: string
  d_rows :: "widget list"

definition addWidgets :: "widget list \<Rightarrow> dashboard \<Rightarrow> dashboard" where
  "addWidgets widgets d =
     (case widgets of
        [] \<Rightarrow> d
      | [w] \<Rightarrow> d\<lparr>d_rows := d_rows d @ [w]\<rparr>
      | _ \<Rightarrow> d\<lparr>d_rows := d_rows d @ [Row widgets]\<rparr>)"

section \<open>The construct\<close>

text \<open>
  \<^verbatim>\<open>ModelMonitoringProps\<close> and \<^verbatim>\<open>BedrockCwDashboardProps\<close> are the two interfaces of the
  repository. The construct itself holds the dashboard it works on; \<open>children\<close> lists the
  constructs it has created in its own scope, each with its id. That the ids of a scope
  differ is a rule of the construct library, which the model does not check.
\<close>

record model_monitoring_props =
  period :: "duration option"
  imageSize :: "string option"
  bucketedStepSize :: "string option"
  inputTokenPrice :: "number option"
  outputTokenPrice :: "number option"

record bedrock_cw_dashboard_props =
  existingDashboard :: "dashboard option"
  dashboardName :: "string option"

datatype child =
    Dashboard_new string string
  | CfnOutput string string
  | Alarm_imported string string

record bedrock_cw_dashboard =
  dashboard :: dashboard
  children :: "child list"

subsection \<open>The constructor\<close>

text \<open>
  \<^verbatim>\<open>Aws.REGION\<close> stands for the region of the deployment; it is the parameter \<open>region\<close>.
  The name attribute of a dashboard created here is the name it was created with.
\<close>

definition BedrockCwDashboard ::
  "string \<Rightarrow> string \<Rightarrow> bedrock_cw_dashboard_props \<Rightarrow> bedrock_cw_dashboard" where
  "BedrockCwDashboard region id' props =
     (let (this_dashboard, created) =
            (case existingDashboard props of
               Some existing \<Rightarrow> (existing, [])
             | None \<Rightarrow>
                 (let name = (case dashboardName props of
                                Some n \<Rightarrow> n
                              | None \<Rightarrow> ''AnyBooksMonitoringDashboard'')
                  in (\<lparr>d_dashboardName = name, d_rows = []\<rparr>,
                      [Dashboard_new (''BedrockMetricsDashboard'' @ id') name])));
          cloudwatchDashboardURL =
            ''https://'' @ region @ ''.console.aws.amazon.com/cloudwatch/home?region=''
              @ region @ ''#dashboards:name='' @ d_dashboardName this_dashboard
      in \<lparr>dashboard = this_dashboard,
          children = created
            @ [CfnOutput (''BedrockMetricsDashboardOutput'' @ id') cloudwatchDashboardURL]\<rparr>)"

subsection \<open>Metrics of one model\<close>

definition modelInputTokensMetric :: "string \<Rightarrow> duration \<Rightarrow> metric_props" where
  "modelInputTokensMetric modelId period' =
     \<lparr>m_namespace = ''AWS/Bedrock'', m_metricName = ''InputTokenCount'',
      m_dimensionsMap = Some [(''ModelId'', modelId)],
      m_statistic = Stats_SUM, m_period = period', m_color = None, m_label = None\<rparr>"

definition modelOutputTokensMetric :: "string \<Rightarrow> duration \<Rightarrow> metric_props" where
  "modelOutputTokensMetric modelId period' =
     \<lparr>m_namespace = ''AWS/Bedrock'', m_metricName = ''OutputTokenCount'',
      m_dimensionsMap = Some [(''ModelId'', modelId)],
      m_statistic = Stats_SUM, m_period = period', m_color = None, m_label = None\<rparr>"

definition modelOutputImageMetric :: "string \<Rightarrow> duration \<Rightarrow> metric_props" where
  "modelOutputImageMetric outputImageCountDimension period' =
     \<lparr>m_namespace = ''AWS/Bedrock'', m_metricName = ''OutputImageCount'',
      m_dimensionsMap = Some [(''ModelId'', outputImageCountDimension)],
      m_statistic = Stats_SUM, m_period = period', m_color = None, m_label = None\<rparr>"

definition modelLatencyAvgMetric :: "string \<Rightarrow> duration \<Rightarrow> metric_props" where
  "modelLatencyAvgMetric modelId period' =
     \<lparr>m_namespace = ''AWS/Bedrock'', m_metricName = ''InvocationLatency'',
      m_dimensionsMap = Some [(''ModelId'', modelId)],
      m_statistic = Stats_AVERAGE, m_period = period', m_color = None, m_label = None\<rparr>"

definition modelLatencyMinMetric :: "string \<Rightarrow> duration \<Rightarrow> metric_props" where
  "modelLatencyMinMetric modelId period' =
     \<lparr>m_namespace = ''AWS/Bedrock'', m_metricName = ''InvocationLatency'',
      m_dimensionsMap = Some [(''ModelId'', modelId)],
      m_statistic = Stats_MINIMUM, m_period = period', m_color = None, m_label = None\<rparr>"

definition modelLatencyMaxMetric :: "string \<Rightarrow> duration \<Rightarrow> metric_props" where
  "modelLatencyMaxMetric modelId period' =
     \<lparr>m_namespace = ''AWS/Bedrock'', m_metricName = ''InvocationLatency'',
      m_dimensionsMap = Some [(''ModelId'', modelId)],
      m_statistic = Stats_MAXIMUM, m_period = period', m_color = None, m_label = None\<rparr>"

definition modelInvocationsCountMetric :: "string \<Rightarrow> duration \<Rightarrow> metric_props" where
  "modelInvocationsCountMetric modelId period' =
     \<lparr>m_namespace = ''AWS/Bedrock'', m_metricName = ''Invocations'',
      m_dimensionsMap = Some [(''ModelId'', modelId)],
      m_statistic = Stats_SUM, m_period = period', m_color = None, m_label = None\<rparr>"

definition modelInvocationsClientErrorsMetric :: "string \<Rightarrow> duration \<Rightarrow> metric_props" where
  "modelInvocationsClientErrorsMetric modelId period' =
     \<lparr>m_namespace = ''AWS/Bedrock'', m_metricName = ''InvocationClientErrors'',
      m_dimensionsMap = Some [(''ModelId'', modelId)],
      m_statistic = Stats_SUM, m_period = period', m_color = None, m_label = None\<rparr>"

definition modelInvocationsServerErrorsMetric :: "string \<Rightarrow> duration \<Rightarrow> metric_props" where
  "modelInvocationsServerErrorsMetric modelId period' =
     \<lparr>m_namespace = ''AWS/Bedrock'', m_metricName = ''InvocationServerErrors'',
      m_dimensionsMap = Some [(''ModelId'', modelId)],
      m_statistic = Stats_SUM, m_period = period', m_color = None, m_label = None\<rparr>"

definition modelInvocationsThrottlesErrorsMetric :: "string \<Rightarrow> duration \<Rightarrow> metric_props" where
  "modelInvocationsThrottlesErrorsMetric modelId period' =
     \<lparr>m_namespace = ''AWS/Bedrock'', m_metricName = ''InvocationThrottles'',
      m_dimensionsMap = Some [(''ModelId'', modelId)],
      m_statistic = Stats_SUM, m_period = period', m_color = None, m_label = None\<rparr>"

definition modelInvocationsLegacysMetric :: "string \<Rightarrow> duration \<Rightarrow> metric_props" where
  "modelInvocationsLegacysMetric modelId period' =
     \<lparr>m_namespace = ''AWS/Bedrock'', m_metricName = ''LegacyModelInvocations'',
      m_dimensionsMap = Some [(''ModelId'', modelId)],
      m_statistic = Stats_SUM, m_period = period', m_color = None, m_label = None\<rparr>"

subsection \<open>addModelMonitoring\<close>

text \<open>
  The cost graph is built under \<^verbatim>\<open>if (props.inputTokenPrice && props.outputTokenPrice)\<close>;
  otherwise \<^verbatim>\<open>pricingWidget\<close> stays \<^verbatim>\<open>undefined\<close>. Its three math expressions are
  built without a period, and neither has the graph one.
\<close>

definition pricingWidget :: "model_monitoring_props \<Rightarrow> string \<Rightarrow> duration \<Rightarrow> widget option" where
  "pricingWidget props modelId period' =
     (if ToBoolean (inputTokenPrice props) \<and> ToBoolean (outputTokenPrice props) then
        Some (GraphWidget
          \<lparr>g_title = ''Token Cost (USD)'',
           g_left =
             [new_MathExpression
                \<lparr>e_expression =
                   ''inputTokens / 1000 * '' @ ToString_number (inputTokenPrice props),
                 e_usingMetrics =
                   [(''inputTokens'', modelInputTokensMetric modelId period')],
                 e_label = ''Input Token Cost'',
                 e_period = None\<rparr>,
              new_MathExpression
                \<lparr>e_expression =
                   ''outputTokens / 1000 * '' @ ToString_number (outputTokenPrice props),
                 e_usingMetrics =
                   [(''outputTokens'', modelOutputTokensMetric modelId period')],
                 e_label = ''Output Token Cost'',
                 e_period = None\<rparr>],
           g_leftYAxis =
             Some \<lparr>y_min = None, y_max = None,
                   y_label = Some ''Input and Output'', y_showUnits = Some False\<rparr>,
           g_leftAnnotations = None,
           g_right = Some
             [new_MathExpression
                \<lparr>e_expression =
                   ''inputTokens / 1000 * '' @ ToString_number (inputTokenPrice props)
                     @ '' + outputTokens / 1000 * ''
                     @ ToString_number (outputTokenPrice props),
                 e_usingMetrics =
                   [(''inputTokens'', modelInputTokensMetric modelId period'),
                    (''outputTokens'', modelOutputTokensMetric modelId period')],
                 e_label = ''Total Cost'',
                 e_period = None\<rparr>],
           g_rightYAxis =
             Some \<lparr>y_min = None, y_max = None,
                   y_label = Some ''Total'', y_showUnits = Some False\<rparr>,
           g_period = None,
           g_width = 12,
           g_height = Some 10\<rparr>)
      else None)"

definition addModelMonitoring ::
  "string \<Rightarrow> string \<Rightarrow> model_monitoring_props \<Rightarrow> bedrock_cw_dashboard \<Rightarrow> bedrock_cw_dashboard" where
  "addModelMonitoring modelName modelId props this =
     (let period' = (case period props of Some p \<Rightarrow> p | None \<Rightarrow> Duration_minutes 1);
          outputImageCountDimension =
            modelId @ ToString (imageSize props) @ ToString (bucketedStepSize props);
          d1 = addWidgets
                 [Row [TextWidget
                         \<lparr>t_markdown = ''# '' @ modelName, t_width = 24, t_height = None\<rparr>]]
                 (dashboard this);
          d2 = addWidgets
                 [Row [SingleValueWidget
                         \<lparr>sv_title = ''Average Latency'',
                          sv_metrics = [Metric (modelLatencyAvgMetric modelId period')],
                          sv_setPeriodToTimeRange = True,
                          sv_width = 8, sv_height = None, sv_period = None\<rparr>,
                       SingleValueWidget
                         \<lparr>sv_title = ''Min Latency'',
                          sv_metrics = [Metric (modelLatencyMinMetric modelId period')],
                          sv_setPeriodToTimeRange = True,
                          sv_width = 8, sv_height = None, sv_period = None\<rparr>,
                       SingleValueWidget
                         \<lparr>sv_title = ''Max Latency'',
                          sv_metrics = [Metric (modelLatencyMaxMetric modelId period')],
                          sv_setPeriodToTimeRange = True,
                          sv_width = 8, sv_height = None, sv_period = None\<rparr>]]
                 d1;
          d3 = addWidgets
                 [Row (GraphWidget
                         \<lparr>g_title = ''Input and Output Token Counts'',
                          g_left = [Metric (modelInputTokensMetric modelId period')],
                          g_leftYAxis = None,
                          g_leftAnnotations = None,
                          g_right = Some [Metric (modelOutputTokensMetric modelId period')],
                          g_rightYAxis = None,
                          g_period = Some period',
                          g_width = 12,
                          g_height = Some 10\<rparr>
                       # (case pricingWidget props modelId period' of
                            Some w \<Rightarrow> [w]
                          | None \<Rightarrow> []))]
                 d2;
          d4 = addWidgets
                 [SingleValueWidget
                    \<lparr>sv_title = ''Invocations'',
                     sv_metrics = [Metric (modelInvocationsCountMetric modelId period')],
                     sv_setPeriodToTimeRange = True,
                     sv_width = 4, sv_height = None, sv_period = None\<rparr>,
                  SingleValueWidget
                    \<lparr>sv_title = ''Client Errors'',
                     sv_metrics = [Metric (modelInvocationsClientErrorsMetric modelId period')],
                     sv_setPeriodToTimeRange = True,
                     sv_width = 4, sv_height = None, sv_period = None\<rparr>,
                  SingleValueWidget
                    \<lparr>sv_title = ''Server Errors'',
                     sv_metrics = [Metric (modelInvocationsServerErrorsMetric modelId period')],
                     sv_setPeriodToTimeRange = True,
                     sv_width = 4, sv_height = None, sv_period = None\<rparr>,
                  SingleValueWidget
                    \<lparr>sv_title = ''Throttled invocations'',
                     sv_metrics = [Metric (modelInvocationsThrottlesErrorsMetric modelId period')],
                     sv_setPeriodToTimeRange = True,
                     sv_width = 4, sv_height = None, sv_period = None\<rparr>,
                  SingleValueWidget
                    \<lparr>sv_title = ''Legacy invocations'',
                     sv_metrics = [Metric (modelInvocationsLegacysMetric modelId period')],
                     sv_setPeriodToTimeRange = True,
                     sv_width = 4, sv_height = None, sv_period = None\<rparr>,
                  SingleValueWidget
                    \<lparr>sv_title = ''OutputImageCount'',
                     sv_metrics =
                       [Metric (modelOutputImageMetric outputImageCountDimension period')],
                     sv_setPeriodToTimeRange = True,
                     sv_width = 4, sv_height = None, sv_period = None\<rparr>]
                 d3
      in this\<lparr>dashboard := d4\<rparr>)"

subsection \<open>String literals of addAllModelsMonitoring outside ASCII\<close>

text \<open>
  The labels and titles of the all-models view are Korean, and the log queries hold double
  quotes and line breaks. Each literal is given here by its UTF-8 bytes.
\<close>

text \<open>Source lines 426 and 439, "average invocation latency".\<close>

definition label_averageInvocationLatency :: string where
  "label_averageInvocationLatency =
     [CHR 0xED, CHR 0x8F, CHR 0x89, CHR 0xEA, CHR 0xB7, CHR 0xA0] @ '' ''
       @ [CHR 0xED, CHR 0x98, CHR 0xB8, CHR 0xEC, CHR 0xB6, CHR 0x9C] @ '' ''
       @ [CHR 0xEC, CHR 0xA7, CHR 0x80, CHR 0xEC, CHR 0x97, CHR 0xB0] @ '' ''
       @ [CHR 0xEC, CHR 0x8B, CHR 0x9C, CHR 0xEA, CHR 0xB0, CHR 0x84]"

text \<open>Source line 451, "invocations per minute".\<close>

definition label_invocationsPerMinute :: string where
  "label_invocationsPerMinute =
     ''1'' @ [CHR 0xEB, CHR 0xB6, CHR 0x84, CHR 0xEB, CHR 0x8B, CHR 0xB9] @ '' ''
       @ [CHR 0xED, CHR 0x98, CHR 0xB8, CHR 0xEC, CHR 0xB6, CHR 0x9C] @ '' ''
       @ [CHR 0xEC, CHR 0x88, CHR 0x98]"

text \<open>Source line 491, "total invocations".\<close>

definition label_totalInvocations :: string where
  "label_totalInvocations =
     [CHR 0xEC, CHR 0xA0, CHR 0x84, CHR 0xEC, CHR 0xB2, CHR 0xB4] @ '' ''
       @ [CHR 0xED, CHR 0x98, CHR 0xB8, CHR 0xEC, CHR 0xB6, CHR 0x9C] @ '' ''
       @ [CHR 0xEC, CHR 0x88, CHR 0x98]"

text \<open>Source lines 551 to 553, the heading of the dashboard and the list of what it shows.\<close>

definition markdown_dashboardHeader :: string where
  "markdown_dashboardHeader =
     ''# '' @ [CHR 0xF0, CHR 0x9F, CHR 0x8E, CHR 0xAF] @ '' AnyBooks Chatbot ''
       @ [CHR 0xEB, CHR 0xAA, CHR 0xA8, CHR 0xEB, CHR 0x8B, CHR 0x88]
       @ [CHR 0xED, CHR 0x84, CHR 0xB0, CHR 0xEB, CHR 0xA7, CHR 0x81] @ '' ''
       @ [CHR 0xEB, CHR 0x8C, CHR 0x80, CHR 0xEC, CHR 0x8B, CHR 0x9C]
       @ [CHR 0xEB, CHR 0xB3, CHR 0xB4, CHR 0xEB, CHR 0x93, CHR 0x9C] @ '' '' @ [CHR 0x0A]
       @ '' AnyBooks'' @ [CHR 0xEC, CHR 0x9D, CHR 0x98] @ '' ''
       @ [CHR 0xEC, CHR 0xB1, CHR 0x97, CHR 0xEB, CHR 0xB4, CHR 0x87]
       @ [CHR 0xEC, CHR 0x97, CHR 0x90] @ '' ''
       @ [CHR 0xEB, CHR 0x8C, CHR 0x80, CHR 0xED, CHR 0x95, CHR 0x9C] @ '' ''
       @ [CHR 0xED, CHR 0x95, CHR 0xB5, CHR 0xEC, CHR 0x8B, CHR 0xAC] @ '' ''
       @ [CHR 0xEB, CHR 0xAA, CHR 0xA8, CHR 0xEB, CHR 0x8B, CHR 0x88]
       @ [CHR 0xED, CHR 0x84, CHR 0xB0, CHR 0xEB, CHR 0xA7, CHR 0x81] @ '' ''
       @ [CHR 0xEC, CHR 0x9C, CHR 0x84, CHR 0xEC, CHR 0xA0, CHR 0xAF]
       @ [CHR 0xEB, CHR 0x93, CHR 0xA4, CHR 0xEC, CHR 0x9D, CHR 0x84] @ '' ''
       @ [CHR 0xEC, CHR 0xA0, CHR 0x9C, CHR 0xEA, CHR 0xB3, CHR 0xB5]
       @ [CHR 0xED, CHR 0x95, CHR 0xA9, CHR 0xEB, CHR 0x8B, CHR 0x88]
       @ [CHR 0xEB, CHR 0x8B, CHR 0xA4] @ '': '' @ [CHR 0x0A] @ ''* ''
       @ [CHR 0xEB, CHR 0xAA, CHR 0xA8, CHR 0xEB, CHR 0x8D, CHR 0xB8] @ '' ''
       @ [CHR 0xED, CHR 0x98, CHR 0xB8, CHR 0xEC, CHR 0xB6, CHR 0x9C] @ '' ''
       @ [CHR 0xEC, CHR 0x88, CHR 0x98] @ '' '' @ [CHR 0x0A] @ '' * ''
       @ [CHR 0xEB, CHR 0xAA, CHR 0xA8, CHR 0xEB, CHR 0x8D, CHR 0xB8]
       @ [CHR 0xEB, CHR 0xB3, CHR 0x84] @ '' ''
       @ [CHR 0xEC, CHR 0xA7, CHR 0x80, CHR 0xEC, CHR 0x97, CHR 0xB0] @ '' ''
       @ [CHR 0xEC, CHR 0x8B, CHR 0x9C, CHR 0xEA, CHR 0xB0, CHR 0x84] @ '' '' @ [CHR 0x0A]
       @ '' * '' @ [CHR 0xEB, CHR 0xAA, CHR 0xA8, CHR 0xEB, CHR 0x8D, CHR 0xB8]
       @ [CHR 0xEB, CHR 0xB3, CHR 0x84] @ '' input/output ''
       @ [CHR 0xED, CHR 0x86, CHR 0xA0, CHR 0xED, CHR 0x81, CHR 0xB0] @ '' ''
       @ [CHR 0xEC, CHR 0x88, CHR 0x98] @ '' '' @ [CHR 0x0A] @ '' * ''
       @ [CHR 0xED, CHR 0x86, CHR 0xA0, CHR 0xED, CHR 0x81, CHR 0xB0] @ '' ''
       @ [CHR 0xEC, CHR 0x82, CHR 0xAC, CHR 0xEC, CHR 0x9A, CHR 0xA9]
       @ [CHR 0xEB, CHR 0x9F, CHR 0x89, CHR 0xEC, CHR 0x97, CHR 0x90] @ '' ''
       @ [CHR 0xEB, CHR 0x94, CHR 0xB0, CHR 0xEB, CHR 0xA5, CHR 0xB8] @ '' ''
       @ [CHR 0xEB, CHR 0xB9, CHR 0x84, CHR 0xEC, CHR 0x9A, CHR 0xA9] @ '' ''
       @ [CHR 0xEC, CHR 0x82, CHR 0xB0, CHR 0xEC, CHR 0xA0, CHR 0x95] @ '' '' @ [CHR 0x0A]
       @ '' * '' @ [CHR 0xEC, CHR 0x97, CHR 0x90, CHR 0xEB, CHR 0x9F, CHR 0xAC] @ '' ''
       @ [CHR 0xEC, CHR 0x88, CHR 0x98] @ '' (Client/Server Error, Throttling Errors) ''
       @ [CHR 0x0A] @ ''* '' @ [CHR 0xEC, CHR 0x95, CHR 0xA0, CHR 0xED, CHR 0x94, CHR 0x8C]
       @ [CHR 0xEB, CHR 0xA6, CHR 0xAC, CHR 0xEC, CHR 0xBC, CHR 0x80]
       @ [CHR 0xEC, CHR 0x9D, CHR 0xB4, CHR 0xEC, CHR 0x85, CHR 0x98] @ '' ''
       @ [CHR 0xEB, CHR 0xA1, CHR 0x9C, CHR 0xEA, CHR 0xB7, CHR 0xB8]"

text \<open>Source lines 567, 582 and 597, "under 5 seconds".\<close>

definition label_under5s :: string where
  "label_under5s =
     ''5'' @ [CHR 0xEC, CHR 0xB4, CHR 0x88] @ '' ''
       @ [CHR 0xEB, CHR 0xAF, CHR 0xB8, CHR 0xEB, CHR 0xA7, CHR 0x8C]"

text \<open>Source lines 568, 583 and 598, "over 5 seconds, under 8 seconds".\<close>

definition label_over5sUnder8s :: string where
  "label_over5sUnder8s =
     ''5'' @ [CHR 0xEC, CHR 0xB4, CHR 0x88] @ '' ''
       @ [CHR 0xEC, CHR 0xB4, CHR 0x88, CHR 0xEA, CHR 0xB3, CHR 0xBC] @ '' 8''
       @ [CHR 0xEC, CHR 0xB4, CHR 0x88] @ '' ''
       @ [CHR 0xEB, CHR 0xAF, CHR 0xB8, CHR 0xEB, CHR 0xA7, CHR 0x8C]"

text \<open>Source lines 569, 584 and 599, "over 8 seconds".\<close>

definition label_over8s :: string where
  "label_over8s =
     ''8'' @ [CHR 0xEC, CHR 0xB4, CHR 0x88] @ '' ''
       @ [CHR 0xEC, CHR 0xB4, CHR 0x88, CHR 0xEA, CHR 0xB3, CHR 0xBC]"

text \<open>Source line 660, "[Claude 3.5 Sonnet] invocations per minute".\<close>

definition title_claudeInvocationsPerMinute :: string where
  "title_claudeInvocationsPerMinute =
     ''[Claude 3.5 Sonnet] '' @ [CHR 0xEB, CHR 0xB6, CHR 0x84, CHR 0xEB, CHR 0x8B, CHR 0xB9]
       @ '' '' @ [CHR 0xED, CHR 0x98, CHR 0xB8, CHR 0xEC, CHR 0xB6, CHR 0x9C] @ '' ''
       @ [CHR 0xEC, CHR 0x88, CHR 0x98]"

text \<open>Source line 675, "response preference".\<close>

definition title_responsePreference :: string where
  "title_responsePreference =
     [CHR 0xEC, CHR 0x9D, CHR 0x91, CHR 0xEB, CHR 0x8B, CHR 0xB5] @ '' ''
       @ [CHR 0xEC, CHR 0x84, CHR 0xA0, CHR 0xED, CHR 0x98, CHR 0xB8]
       @ [CHR 0xEB, CHR 0x8F, CHR 0x84]"

text \<open>Source lines 677 to 682.\<close>

definition queryString_feedback :: string where
  "queryString_feedback =
     [CHR 0x0A] @ ''              fields @timestamp, @message'' @ [CHR 0x0A]
       @ ''              | filter @message like '' @ [CHR 0x22] @ ''[Feedback]''
       @ [CHR 0x22, CHR 0x0A] @ ''              | parse @message '' @ [CHR 0x22]
       @ ''[Feedback] *'' @ [CHR 0x22] @ '' as feedback'' @ [CHR 0x0A]
       @ ''              | stats count() as count by feedback'' @ [CHR 0x0A] @ ''            ''"

text \<open>Source line 688, "invocations in which a guardrail intervened".\<close>

definition title_guardrailInterventions :: string where
  "title_guardrailInterventions =
     [CHR 0xEA, CHR 0xB0, CHR 0x80, CHR 0xEB, CHR 0x93, CHR 0x9C]
       @ [CHR 0xEB, CHR 0xA0, CHR 0x88, CHR 0xEC, CHR 0x9D, CHR 0xBC]
       @ [CHR 0xEC, CHR 0x9D, CHR 0xB4] @ '' ''
       @ [CHR 0xEA, CHR 0xB0, CHR 0x9C, CHR 0xEC, CHR 0x9E, CHR 0x85]
       @ [CHR 0xEB, CHR 0x90, CHR 0x9C] @ '' ''
       @ [CHR 0xED, CHR 0x98, CHR 0xB8, CHR 0xEC, CHR 0xB6, CHR 0x9C] @ '' ''
       @ [CHR 0xEC, CHR 0x88, CHR 0x98]"

text \<open>Source line 696, "text units consumed by the guardrail policies".\<close>

definition title_guardrailTextUnits :: string where
  "title_guardrailTextUnits =
     [CHR 0xEA, CHR 0xB0, CHR 0x80, CHR 0xEB, CHR 0x93, CHR 0x9C]
       @ [CHR 0xEB, CHR 0xA0, CHR 0x88, CHR 0xEC, CHR 0x9D, CHR 0xBC] @ '' ''
       @ [CHR 0xEC, CHR 0xA0, CHR 0x95, CHR 0xEC, CHR 0xB1, CHR 0x85]
       @ [CHR 0xEC, CHR 0x9D, CHR 0xB4] @ '' ''
       @ [CHR 0xEC, CHR 0x86, CHR 0x8C, CHR 0xEB, CHR 0xB9, CHR 0x84]
       @ [CHR 0xED, CHR 0x95, CHR 0x9C] @ '' text unit '' @ [CHR 0xEC, CHR 0x88, CHR 0x98]"

text \<open>Source line 705, "payment success / failure".\<close>

definition title_paymentOutcome :: string where
  "title_paymentOutcome =
     [CHR 0xEA, CHR 0xB2, CHR 0xB0, CHR 0xEC, CHR 0xA0, CHR 0x9C] @ '' ''
       @ [CHR 0xEC, CHR 0x84, CHR 0xB1, CHR 0xEA, CHR 0xB3, CHR 0xB5] @ '' / ''
       @ [CHR 0xEC, CHR 0x8B, CHR 0xA4, CHR 0xED, CHR 0x8C, CHR 0xA8]"

text \<open>Source lines 707 to 712.\<close>

definition queryString_paymentOutcome :: string where
  "queryString_paymentOutcome =
     [CHR 0x0A] @ ''              fields @timestamp, @message'' @ [CHR 0x0A]
       @ ''              | filter @message like '' @ [CHR 0x22] @ ''[PAY]''
       @ [CHR 0x22, CHR 0x0A] @ ''              | parse @message '' @ [CHR 0x22] @ ''[PAY]*''
       @ [CHR 0x22] @ '' as payment'' @ [CHR 0x0A]
       @ ''              | stats count() as count by payment'' @ [CHR 0x0A] @ ''            ''"

text \<open>Source line 718, "alarm status".\<close>

definition title_alarmStatus :: string where
  "title_alarmStatus =
     [CHR 0xEC, CHR 0x95, CHR 0x8C, CHR 0xEB, CHR 0x9E, CHR 0x8C] @ '' ''
       @ [CHR 0xEB, CHR 0xB0, CHR 0x9C, CHR 0xEC, CHR 0x83, CHR 0x9D] @ '' ''
       @ [CHR 0xED, CHR 0x98, CHR 0x84, CHR 0xED, CHR 0x99, CHR 0xA9]"

text \<open>Source line 720.\<close>

definition arn_invocationsAlarm :: string where
  "arn_invocationsAlarm =
     ''arn:aws:cloudwatch:us-west-2:682033488544:alarm:Bedrock ''
       @ [CHR 0xEB, CHR 0xAA, CHR 0xA8, CHR 0xEB, CHR 0x8D, CHR 0xB8] @ '' ''
       @ [CHR 0xED, CHR 0x98, CHR 0xB8, CHR 0xEC, CHR 0xB6, CHR 0x9C] @ '' ''
       @ [CHR 0xEC, CHR 0x88, CHR 0x98] @ '' ''
       @ [CHR 0xEC, CHR 0x9E, CHR 0x84, CHR 0xEA, CHR 0xB3, CHR 0x84]
       @ [CHR 0xEC, CHR 0xB9, CHR 0x98] @ '' ''
       @ [CHR 0xEC, CHR 0xB4, CHR 0x88, CHR 0xEA, CHR 0xB3, CHR 0xBC]"

text \<open>Source line 721.\<close>

definition arn_lambdaErrorsAlarm :: string where
  "arn_lambdaErrorsAlarm =
     ''arn:aws:cloudwatch:us-west-2:682033488544:alarm:Action Group Lambda ''
       @ [CHR 0xEC, CHR 0x97, CHR 0x90, CHR 0xEB, CHR 0x9F, CHR 0xAC] @ '' ''
       @ [CHR 0xEC, CHR 0x88, CHR 0x98] @ '' ''
       @ [CHR 0xEC, CHR 0x9E, CHR 0x84, CHR 0xEA, CHR 0xB3, CHR 0x84]
       @ [CHR 0xEC, CHR 0xB9, CHR 0x98] @ '' ''
       @ [CHR 0xEC, CHR 0xB4, CHR 0x88, CHR 0xEA, CHR 0xB3, CHR 0xBC]"

text \<open>Source line 722.\<close>

definition arn_costAlarm :: string where
  "arn_costAlarm =
     ''arn:aws:cloudwatch:us-west-2:682033488544:alarm:Claude 3.5 Sonnet V2 ''
       @ [CHR 0xED, CHR 0x98, CHR 0xB8, CHR 0xEC, CHR 0xB6, CHR 0x9C] @ '' ''
       @ [CHR 0xEB, CHR 0xB9, CHR 0x84, CHR 0xEC, CHR 0x9A, CHR 0xA9] @ '' ''
       @ [CHR 0xEC, CHR 0x9E, CHR 0x84, CHR 0xEA, CHR 0xB3, CHR 0x84]
       @ [CHR 0xEC, CHR 0xB9, CHR 0x98] @ '' ''
       @ [CHR 0xEC, CHR 0xB4, CHR 0x88, CHR 0xEA, CHR 0xB3, CHR 0xBC]"

text \<open>Source line 729, "payment log".\<close>

definition title_paymentLog :: string where
  "title_paymentLog =
     [CHR 0xEA, CHR 0xB2, CHR 0xB0, CHR 0xEC, CHR 0xA0, CHR 0x9C] @ '' ''
       @ [CHR 0xEB, CHR 0xA1, CHR 0x9C, CHR 0xEA, CHR 0xB7, CHR 0xB8]"

text \<open>Source lines 731 to 738.\<close>

definition queryString_paymentLog :: string where
  "queryString_paymentLog =
     [CHR 0x0A] @ ''              filter @message like '' @ [CHR 0x22] @ ''[PAY]''
       @ [CHR 0x22, CHR 0x0A] @ ''              | fields @timestamp'' @ [CHR 0x0A]
       @ ''              | parse @message '' @ [CHR 0x22] @ ''[PAY]*'' @ [CHR 0x22]
       @ '' as payment'' @ [CHR 0x0A] @ ''              | fields @logStream, @log''
       @ [CHR 0x0A] @ ''              | sort @timestamp desc'' @ [CHR 0x0A]
       @ ''              | limit 100'' @ [CHR 0x0A] @ ''            ''"

subsection \<open>Metrics across all models\<close>

definition color :: string where
  "color = ''#caedfc''"

definition inputTokensAllModelsMetric :: "duration \<Rightarrow> metric_props" where
  "inputTokensAllModelsMetric period' =
     \<lparr>m_namespace = ''AWS/Bedrock'', m_metricName = ''InputTokenCount'',
      m_dimensionsMap = None,
      m_statistic = Stats_SUM, m_period = period', m_color = None, m_label = None\<rparr>"

definition outputTokensAllModelsMetric :: "duration \<Rightarrow> metric_props" where
  "outputTokensAllModelsMetric period' =
     \<lparr>m_namespace = ''AWS/Bedrock'', m_metricName = ''OutputTokenCount'',
      m_dimensionsMap = None,
      m_statistic = Stats_SUM, m_period = period', m_color = None, m_label = None\<rparr>"

definition titanEmbedTextV2modelLatencyAvgMetric :: "duration \<Rightarrow> metric_props" where
  "titanEmbedTextV2modelLatencyAvgMetric period' =
     \<lparr>m_namespace = ''AWS/Bedrock'', m_metricName = ''InvocationLatency'',
      m_dimensionsMap = Some
        [(''ModelId'',
          ''arn:aws:bedrock:us-west-2::foundation-model/amazon.titan-embed-text-v2:0'')],
      m_statistic = Stats_AVERAGE, m_period = period', m_color = Some color,
      m_label = Some label_averageInvocationLatency\<rparr>"

definition claude35sonnetmodelLatencyAvgMetric :: "duration \<Rightarrow> metric_props" where
  "claude35sonnetmodelLatencyAvgMetric period' =
     \<lparr>m_namespace = ''AWS/Bedrock'', m_metricName = ''InvocationLatency'',
      m_dimensionsMap = Some [(''ModelId'', ''anthropic.claude-3-5-sonnet-20241022-v2:0'')],
      m_statistic = Stats_AVERAGE, m_period = period', m_color = Some color,
      m_label = Some label_averageInvocationLatency\<rparr>"

text \<open>This metric does not take the configured period: its period is written out.\<close>

definition claude35sonnetmodelInvocationsPerMinMetric :: metric_props where
  "claude35sonnetmodelInvocationsPerMinMetric =
     \<lparr>m_namespace = ''AWS/Bedrock'', m_metricName = ''Invocations'',
      m_dimensionsMap = Some [(''ModelId'', ''anthropic.claude-3-5-sonnet-20241022-v2:0'')],
      m_statistic = Stats_SUM, m_period = Duration_minutes 1, m_color = Some color,
      m_label = Some label_invocationsPerMinute\<rparr>"

definition outputImageMetric :: "duration \<Rightarrow> metric_props" where
  "outputImageMetric period' =
     \<lparr>m_namespace = ''AWS/Bedrock'', m_metricName = ''OutputImageCount'',
      m_dimensionsMap = None,
      m_statistic = Stats_SUM, m_period = period', m_color = None, m_label = None\<rparr>"

definition latencyAvgAllModelsMetric :: "duration \<Rightarrow> metric_props" where
  "latencyAvgAllModelsMetric period' =
     \<lparr>m_namespace = ''AWS/Bedrock'', m_metricName = ''InvocationLatency'',
      m_dimensionsMap = None,
      m_statistic = Stats_AVERAGE, m_period = period', m_color = Some color, m_label = None\<rparr>"

definition latencyMinAllModelsMetric :: "duration \<Rightarrow> metric_props" where
  "latencyMinAllModelsMetric period' =
     \<lparr>m_namespace = ''AWS/Bedrock'', m_metricName = ''InvocationLatency'',
      m_dimensionsMap = None,
      m_statistic = Stats_MINIMUM, m_period = period', m_color = Some color, m_label = None\<rparr>"

definition latencyMaxAllModelsMetric :: "duration \<Rightarrow> metric_props" where
  "latencyMaxAllModelsMetric period' =
     \<lparr>m_namespace = ''AWS/Bedrock'', m_metricName = ''InvocationLatency'',
      m_dimensionsMap = None,
      m_statistic = Stats_MAXIMUM, m_period = period', m_color = Some color, m_label = None\<rparr>"

definition invocationsCountAllModelsMetric :: "duration \<Rightarrow> metric_props" where
  "invocationsCountAllModelsMetric period' =
     \<lparr>m_namespace = ''AWS/Bedrock'', m_metricName = ''Invocations'',
      m_dimensionsMap = None,
      m_statistic = Stats_SUM, m_period = period', m_color = Some color,
      m_label = Some label_totalInvocations\<rparr>"

definition invocationsClientErrorsAllModelsMetric :: "duration \<Rightarrow> metric_props" where
  "invocationsClientErrorsAllModelsMetric period' =
     \<lparr>m_namespace = ''AWS/Bedrock'', m_metricName = ''InvocationClientErrors'',
      m_dimensionsMap = None,
      m_statistic = Stats_SUM, m_period = period', m_color = Some color, m_label = None\<rparr>"

definition invocationsServerErrorsAllModelsMetric :: "duration \<Rightarrow> metric_props" where
  "invocationsServerErrorsAllModelsMetric period' =
     \<lparr>m_namespace = ''AWS/Bedrock'', m_metricName = ''InvocationServerErrors'',
      m_dimensionsMap = None,
      m_statistic = Stats_SUM, m_period = period', m_color = Some color, m_label = None\<rparr>"

definition invocationsThrottlesErrorsMetric :: "duration \<Rightarrow> metric_props" where
  "invocationsThrottlesErrorsMetric period' =
     \<lparr>m_namespace = ''AWS/Bedrock'', m_metricName = ''InvocationThrottles'',
      m_dimensionsMap = None,
      m_statistic = Stats_SUM, m_period = period', m_color = Some color, m_label = None\<rparr>"

definition invocationsLegacyModelMetric :: "duration \<Rightarrow> metric_props" where
  "invocationsLegacyModelMetric period' =
     \<lparr>m_namespace = ''AWS/Bedrock'', m_metricName = ''LegacyModelInvocations'',
      m_dimensionsMap = None,
      m_statistic = Stats_SUM, m_period = period', m_color = None, m_label = None\<rparr>"

definition guadrailsInvocationsIntervenedMetric :: "duration \<Rightarrow> metric_props" where
  "guadrailsInvocationsIntervenedMetric period' =
     \<lparr>m_namespace = ''AWS/Bedrock/Guardrails'', m_metricName = ''InvocationsIntervened'',
      m_dimensionsMap = Some [(''Operation'', ''ApplyGuardrail'')],
      m_statistic = Stats_SUM, m_period = period', m_color = Some Color_RED, m_label = None\<rparr>"

definition guadrailsTextUnitCountTextUnitCountMetric :: "duration \<Rightarrow> metric_props" where
  "guadrailsTextUnitCountTextUnitCountMetric period' =
     \<lparr>m_namespace = ''AWS/Bedrock/Guardrails'', m_metricName = ''TextUnitCount'',
      m_dimensionsMap = Some [(''Operation'', ''ApplyGuardrail'')],
      m_statistic = Stats_SUM, m_period = period', m_color = Some Color_ORANGE,
      m_label = None\<rparr>"

subsection \<open>addAllModelsMonitoring\<close>

text \<open>
  The three gauges are given the same three annotations, written out three times in the
  source (lines 567 to 569, 582 to 584 and 597 to 599); each gauge below carries its own copy.
  The first \<^verbatim>\<open>addWidgets\<close> has returned before the arguments of the second one are
  evaluated, so the three alarms are imported into the scope of the construct between the two
  rows.
\<close>

definition addAllModelsMonitoring ::
  "model_monitoring_props \<Rightarrow> bedrock_cw_dashboard \<Rightarrow> bedrock_cw_dashboard" where
  "addAllModelsMonitoring props this =
     (let period' = (case period props of Some p \<Rightarrow> p | None \<Rightarrow> Duration_minutes 1);
          d1 = addWidgets
                 [Row [TextWidget
                         \<lparr>t_markdown = markdown_dashboardHeader,
                          t_width = 6, t_height = Some 6\<rparr>,
                       GaugeWidget
                         \<lparr>gg_title = ''Average Latency (All Models)'',
                          gg_metrics = [Metric (latencyAvgAllModelsMetric period')],
                          gg_width = 6, gg_height = 6,
                          gg_period = period',
                          gg_setPeriodToTimeRange = True,
                          gg_liveData = True,
                          gg_leftYAxis = \<lparr>y_min = Some 0, y_max = Some 15000,
                                          y_label = None, y_showUnits = None\<rparr>,
                          gg_legendPosition = LegendPosition_BOTTOM,
                          gg_annotations =
                            [\<lparr>a_color = ''#b2df8d'', a_label = label_under5s,
                              a_value = 5000, a_fill = Some Shading_BELOW\<rparr>,
                             \<lparr>a_color = ''#f89256'', a_label = label_over5sUnder8s,
                              a_value = 5000, a_fill = Some Shading_ABOVE\<rparr>,
                             \<lparr>a_color = ''#fe6e73'', a_label = label_over8s,
                              a_value = 8000, a_fill = Some Shading_ABOVE\<rparr>]\<rparr>,
                       GaugeWidget
                         \<lparr>gg_title = ''Min Latency (All Models)'',
                          gg_metrics = [Metric (latencyMinAllModelsMetric period')],
                          gg_width = 6, gg_height = 6,
                          gg_period = period',
                          gg_setPeriodToTimeRange = True,
                          gg_liveData = True,
                          gg_leftYAxis = \<lparr>y_min = Some 0, y_max = Some 15000,
                                          y_label = None, y_showUnits = None\<rparr>,
                          gg_legendPosition = LegendPosition_BOTTOM,
                          gg_annotations =
                            [\<lparr>a_color = ''#b2df8d'', a_label = label_under5s,
                              a_value = 5000, a_fill = Some Shading_BELOW\<rparr>,
                             \<lparr>a_color = ''#f89256'', a_label = label_over5sUnder8s,
                              a_value = 5000, a_fill = Some Shading_ABOVE\<rparr>,
                             \<lparr>a_color = ''#fe6e73'', a_label = label_over8s,
                              a_value = 8000, a_fill = Some Shading_ABOVE\<rparr>]\<rparr>,
                       GaugeWidget
                         \<lparr>gg_title = ''Max Latency (All Models)'',
                          gg_metrics = [Metric (latencyMaxAllModelsMetric period')],
                          gg_width = 6, gg_height = 6,
                          gg_period = period',
                          gg_setPeriodToTimeRange = True,
                          gg_liveData = True,
                          gg_leftYAxis = \<lparr>y_min = Some 0, y_max = Some 15000,
                                          y_label = None, y_showUnits = None\<rparr>,
                          gg_legendPosition = LegendPosition_BOTTOM,
                          gg_annotations =
                            [\<lparr>a_color = ''#b2df8d'', a_label = label_under5s,
                              a_value = 5000, a_fill = Some Shading_BELOW\<rparr>,
                             \<lparr>a_color = ''#f89256'', a_label = label_over5sUnder8s,
                              a_value = 5000, a_fill = Some Shading_ABOVE\<rparr>,
                             \<lparr>a_color = ''#fe6e73'', a_label = label_over8s,
                              a_value = 8000, a_fill = Some Shading_ABOVE\<rparr>]\<rparr>]]
                 (dashboard this);
          imported =
            [Alarm_imported ''Alarm'' arn_invocationsAlarm,
             Alarm_imported ''Alarm2'' arn_lambdaErrorsAlarm,
             Alarm_imported ''Alarm3'' arn_costAlarm];
          d2 = addWidgets
                 [Row [GraphWidget
                         \<lparr>g_title = ''Input and Output Tokens (All Models)'',
                          g_left = [Metric (inputTokensAllModelsMetric period')],
                          g_leftYAxis = None,
                          g_leftAnnotations = None,
                          g_right = Some [Metric (outputTokensAllModelsMetric period')],
                          g_rightYAxis = None,
                          g_period = Some period',
                          g_width = 12,
                          g_height = None\<rparr>,
                       SingleValueWidget
                         \<lparr>sv_title = ''Invocations (All Models)'',
                          sv_metrics = [Metric (invocationsCountAllModelsMetric period')],
                          sv_setPeriodToTimeRange = True,
                          sv_width = 4, sv_height = Some 4, sv_period = Some period'\<rparr>,
                       SingleValueWidget
                         \<lparr>sv_title = ''[Titan Text Embeddings V2] Invocation Latency'',
                          sv_metrics = [Metric (titanEmbedTextV2modelLatencyAvgMetric period')],
                          sv_setPeriodToTimeRange = True,
                          sv_width = 4, sv_height = Some 4, sv_period = Some period'\<rparr>,
                       SingleValueWidget
                         \<lparr>sv_title = ''[Claude 3.5 Sonnet] Invocation Latency'',
                          sv_metrics = [Metric (claude35sonnetmodelLatencyAvgMetric period')],
                          sv_setPeriodToTimeRange = True,
                          sv_width = 4, sv_height = Some 4, sv_period = Some period'\<rparr>,
                       SingleValueWidget
                         \<lparr>sv_title = ''Client Errors (All Models)'',
                          sv_metrics =
                            [Metric (invocationsClientErrorsAllModelsMetric period')],
                          sv_setPeriodToTimeRange = True,
                          sv_width = 4, sv_height = None, sv_period = Some period'\<rparr>,
                       SingleValueWidget
                         \<lparr>sv_title = ''Server Errors (All Models)'',
                          sv_metrics =
                            [Metric (invocationsServerErrorsAllModelsMetric period')],
                          sv_setPeriodToTimeRange = True,
                          sv_width = 4, sv_height = None, sv_period = Some period'\<rparr>,
                       SingleValueWidget
                         \<lparr>sv_title = ''Throttling Errors (All Models)'',
                          sv_metrics = [Metric (invocationsThrottlesErrorsMetric period')],
                          sv_setPeriodToTimeRange = True,
                          sv_width = 4, sv_height = None, sv_period = Some period'\<rparr>,
                       GraphWidget
                         \<lparr>g_title = title_claudeInvocationsPerMinute,
                          g_left = [Metric claude35sonnetmodelInvocationsPerMinMetric],
                          g_leftYAxis = None,
                          g_leftAnnotations = Some
                            [\<lparr>a_color = ''#ff0000'', a_label = ''Quota limit'',
                              a_value = 250, a_fill = None\<rparr>],
                          g_right = None,
                          g_rightYAxis = None,
                          g_period = Some (Duration_minutes 1),
                          g_width = 6,
                          g_height = Some 5\<rparr>,
                       LogQueryWidget
                         \<lparr>lq_title = title_responsePreference,
                          lq_logGroupNames = [''anybooks-streamlit-app''],
                          lq_queryString = queryString_feedback,
                          lq_view = LogQueryVisualizationType_PIE,
                          lq_width = 6, lq_height = Some 5\<rparr>,
                       SingleValueWidget
                         \<lparr>sv_title = title_guardrailInterventions,
                          sv_metrics = [Metric (guadrailsInvocationsIntervenedMetric period')],
                          sv_setPeriodToTimeRange = True,
                          sv_width = 6, sv_height = Some 4, sv_period = Some period'\<rparr>,
                       SingleValueWidget
                         \<lparr>sv_title = title_guardrailTextUnits,
                          sv_metrics =
                            [Metric (guadrailsTextUnitCountTextUnitCountMetric period')],
                          sv_setPeriodToTimeRange = True,
                          sv_width = 6, sv_height = Some 4, sv_period = Some period'\<rparr>,
                       LogQueryWidget
                         \<lparr>lq_title = title_paymentOutcome,
                          lq_logGroupNames = [''/aws/lambda/lambda-bedrock-agent''],
                          lq_queryString = queryString_paymentOutcome,
                          lq_view = LogQueryVisualizationType_PIE,
                          lq_width = 6, lq_height = Some 4\<rparr>,
                       AlarmStatusWidget
                         \<lparr>as_title = title_alarmStatus,
                          as_alarms =
                            [Alarm_fromAlarmArn ''Alarm'' arn_invocationsAlarm,
                             Alarm_fromAlarmArn ''Alarm2'' arn_lambdaErrorsAlarm,
                             Alarm_fromAlarmArn ''Alarm3'' arn_costAlarm],
                          as_width = 6, as_height = 4\<rparr>,
                       LogQueryWidget
                         \<lparr>lq_title = title_paymentLog,
                          lq_logGroupNames = [''/aws/lambda/lambda-bedrock-agent''],
                          lq_queryString = queryString_paymentLog,
                          lq_view = LogQueryVisualizationType_TABLE,
                          lq_width = 24, lq_height = None\<rparr>]]
                 d1
      in this\<lparr>dashboard := d2, children := children this @ imported\<rparr>)"

section \<open>Observations on a dashboard\<close>

text \<open>
  What a call has appended: the rows of the dashboard after the call, beyond those it had
  before.
\<close>

definition appended :: "bedrock_cw_dashboard \<Rightarrow> bedrock_cw_dashboard \<Rightarrow> widget list" where
  "appended this this' =
     drop (length (d_rows (dashboard this))) (d_rows (dashboard this'))"

text \<open>The widgets that a row holds, rows inside it opened up, from left to right.\<close>

fun widgets_of :: "widget \<Rightarrow> widget list" where
  "widgets_of (Row ws) = concat (map widgets_of ws)"
| "widgets_of w = [w]"

definition widgetCount :: "widget list \<Rightarrow> nat" where
  "widgetCount rows = length (concat (map widgets_of rows))"

fun isRow :: "widget \<Rightarrow> bool" where
  "isRow (Row ws) = True"
| "isRow w = False"

datatype widget_kind = Text | SingleValue | Graph | Gauge | LogQuery | AlarmStatus

fun kinds_of :: "widget \<Rightarrow> widget_kind list" where
  "kinds_of (Row ws) = concat (map kinds_of ws)"
| "kinds_of (TextWidget p) = [Text]"
| "kinds_of (SingleValueWidget p) = [SingleValue]"
| "kinds_of (GraphWidget p) = [Graph]"
| "kinds_of (GaugeWidget p) = [Gauge]"
| "kinds_of (LogQueryWidget p) = [LogQuery]"
| "kinds_of (AlarmStatusWidget p) = [AlarmStatus]"

text \<open>The title of each widget of a row; a text widget shows its markdown.\<close>

fun titles_of :: "widget \<Rightarrow> string list" where
  "titles_of (Row ws) = concat (map titles_of ws)"
| "titles_of (TextWidget p) = [t_markdown p]"
| "titles_of (SingleValueWidget p) = [sv_title p]"
| "titles_of (GraphWidget p) = [g_title p]"
| "titles_of (GaugeWidget p) = [gg_title p]"
| "titles_of (LogQueryWidget p) = [lq_title p]"
| "titles_of (AlarmStatusWidget p) = [as_title p]"

text \<open>
  The metric references of a widget: the metrics it shows, and for a math expression the
  metrics it is computed from.
\<close>

fun metric_refs :: "imetric \<Rightarrow> metric_props list" where
  "metric_refs (Metric m) = [m]"
| "metric_refs (MathExpression e) = map snd (e_usingMetrics e)"

fun metrics_of :: "widget \<Rightarrow> metric_props list" where
  "metrics_of (Row ws) = concat (map metrics_of ws)"
| "metrics_of (TextWidget p) = []"
| "metrics_of (SingleValueWidget p) = concat (map metric_refs (sv_metrics p))"
| "metrics_of (GraphWidget p) =
     concat (map metric_refs (g_left p @ (case g_right p of Some r \<Rightarrow> r | None \<Rightarrow> [])))"
| "metrics_of (GaugeWidget p) = concat (map metric_refs (gg_metrics p))"
| "metrics_of (LogQueryWidget p) = []"
| "metrics_of (AlarmStatusWidget p) = []"



text \<open>The cost graph is the graph titled \<^verbatim>\<open>Token Cost (USD)\<close>.\<close>

fun costWidgets_of :: "widget \<Rightarrow> graph_widget_props list" where
  "costWidgets_of (Row ws) = concat (map costWidgets_of ws)"
| "costWidgets_of (GraphWidget p) = (if g_title p = ''Token Cost (USD)'' then [p] else [])"
| "costWidgets_of w = []"

definition hasCostWidget :: "widget list \<Rightarrow> bool" where
  "hasCostWidget rows = (concat (map costWidgets_of rows) \<noteq> [])"


fun graphs_of :: "widget \<Rightarrow> graph_widget_props list" where
  "graphs_of (Row ws) = concat (map graphs_of ws)"
| "graphs_of (GraphWidget p) = [p]"
| "graphs_of w = []"

text \<open>
  The series of a graph by axis: a metric by its name, a math expression by its label.
\<close>

fun series_name :: "imetric \<Rightarrow> string" where
  "series_name (Metric m) = m_metricName m"
| "series_name (MathExpression e) = e_label e"

definition axes_of :: "graph_widget_props \<Rightarrow> string list \<times> string list" where
  "axes_of p =
     (map series_name (g_left p),
      map series_name (case g_right p of Some r \<Rightarrow> r | None \<Rightarrow> []))"

text \<open>The dashboards and the outputs among the constructs created in a scope.\<close>

fun dashboards_created :: "child list \<Rightarrow> (string \<times> string) list" where
  "dashboards_created [] = []"
| "dashboards_created (Dashboard_new i n # cs) = (i, n) # dashboards_created cs"
| "dashboards_created (c # cs) = dashboards_created cs"

fun outputs_created :: "child list \<Rightarrow> (string \<times> string) list" where
  "outputs_created [] = []"
| "outputs_created (CfnOutput i v # cs) = (i, v) # outputs_created cs"
| "outputs_created (c # cs) = outputs_created cs"

text \<open>
  The test that section 8 of the specification writes for the cost graph,
  \<^verbatim>\<open>inputPrice != null && outputPrice != null\<close>: both prices are given, whatever their value.
\<close>

definition spec_hasCostWidget :: "model_monitoring_props \<Rightarrow> bool" where
  "spec_hasCostWidget props =
     (inputTokenPrice props \<noteq> None \<and> outputTokenPrice props \<noteq> None)"

section \<open>Facts about addModelMonitoring\<close>

lemmas addModelMonitoring_defs =
  addModelMonitoring_def addWidgets_def appended_def Let_def pricingWidget_def
  new_MathExpression_def

lemmas modelMetric_defs =
  modelInputTokensMetric_def modelOutputTokensMetric_def modelOutputImageMetric_def
  modelLatencyAvgMetric_def modelLatencyMinMetric_def modelLatencyMaxMetric_def
  modelInvocationsCountMetric_def modelInvocationsClientErrorsMetric_def
  modelInvocationsServerErrorsMetric_def modelInvocationsThrottlesErrorsMetric_def
  modelInvocationsLegacysMetric_def

text \<open>The call keeps the rows that the dashboard had and adds its own after them.\<close>

lemma addModelMonitoring_rows:
  "d_rows (dashboard (addModelMonitoring modelName modelId props this)) =
     d_rows (dashboard this) @ appended this (addModelMonitoring modelName modelId props this)"
  by (simp add: addModelMonitoring_def addWidgets_def appended_def Let_def)

text \<open>What it adds does not depend on the dashboard it adds to.\<close>

lemma appended_addModelMonitoring_any:
  "appended this (addModelMonitoring modelName modelId props this) =
     appended this' (addModelMonitoring modelName modelId props this')"
  by (simp add: addModelMonitoring_def addWidgets_def appended_def Let_def)

lemma addModelMonitoring_children:
  "children (addModelMonitoring modelName modelId props this) = children this"
  by (simp add: addModelMonitoring_def Let_def)

lemma addModelMonitoring_dashboardName:
  "d_dashboardName (dashboard (addModelMonitoring modelName modelId props this)) =
     d_dashboardName (dashboard this)"
  by (simp add: addModelMonitoring_def addWidgets_def Let_def)

lemma length_appended_addModelMonitoring:
  "length (appended this (addModelMonitoring modelName modelId props this)) = 4"
  by (simp add: addModelMonitoring_defs)

lemma isRow_addModelMonitoring:
  "map isRow (appended this (addModelMonitoring modelName modelId props this)) =
     [True, True, True, True]"
  by (simp add: addModelMonitoring_defs)

lemma hasCostWidget_addModelMonitoring:
  "hasCostWidget (appended this (addModelMonitoring modelName modelId props this)) \<longleftrightarrow>
     ToBoolean (inputTokenPrice props) \<and> ToBoolean (outputTokenPrice props)"
  by (simp add: addModelMonitoring_defs hasCostWidget_def)

lemma kinds_addModelMonitoring:
  "map kinds_of (appended this (addModelMonitoring modelName modelId props this)) =
     [[Text],
      [SingleValue, SingleValue, SingleValue],
      Graph # (if ToBoolean (inputTokenPrice props) \<and> ToBoolean (outputTokenPrice props)
               then [Graph] else []),
      [SingleValue, SingleValue, SingleValue, SingleValue, SingleValue, SingleValue]]"
  by (simp add: addModelMonitoring_defs)

lemma titles_addModelMonitoring:
  "map titles_of (appended this (addModelMonitoring modelName modelId props this)) =
     [[''# '' @ modelName],
      [''Average Latency'', ''Min Latency'', ''Max Latency''],
      ''Input and Output Token Counts''
        # (if ToBoolean (inputTokenPrice props) \<and> ToBoolean (outputTokenPrice props)
           then [''Token Cost (USD)''] else []),
      [''Invocations'', ''Client Errors'', ''Server Errors'', ''Throttled invocations'',
       ''Legacy invocations'', ''OutputImageCount'']]"
  by (simp add: addModelMonitoring_defs)

lemma metrics_addModelMonitoring:
  "map (map (\<lambda>m. (m_metricName m, m_statistic m)) \<circ> metrics_of)
       (appended this (addModelMonitoring modelName modelId props this)) =
     [[],
      [(''InvocationLatency'', Stats_AVERAGE), (''InvocationLatency'', Stats_MINIMUM),
       (''InvocationLatency'', Stats_MAXIMUM)],
      [(''InputTokenCount'', Stats_SUM), (''OutputTokenCount'', Stats_SUM)]
        @ (if ToBoolean (inputTokenPrice props) \<and> ToBoolean (outputTokenPrice props)
           then [(''InputTokenCount'', Stats_SUM), (''OutputTokenCount'', Stats_SUM),
                 (''InputTokenCount'', Stats_SUM), (''OutputTokenCount'', Stats_SUM)]
           else []),
      [(''Invocations'', Stats_SUM), (''InvocationClientErrors'', Stats_SUM),
       (''InvocationServerErrors'', Stats_SUM), (''InvocationThrottles'', Stats_SUM),
       (''LegacyModelInvocations'', Stats_SUM), (''OutputImageCount'', Stats_SUM)]]"
  by (simp add: addModelMonitoring_defs modelMetric_defs)

lemma axes_addModelMonitoring:
  "map (map axes_of \<circ> graphs_of)
       (appended this (addModelMonitoring modelName modelId props this)) =
     [[], [],
      ([''InputTokenCount''], [''OutputTokenCount''])
        # (if ToBoolean (inputTokenPrice props) \<and> ToBoolean (outputTokenPrice props)
           then [([''Input Token Cost'', ''Output Token Cost''], [''Total Cost''])]
           else []),
      []]"
  by (simp add: addModelMonitoring_defs modelMetric_defs axes_of_def)

lemma widgetCount_append:
  "widgetCount (rows @ rows') = widgetCount rows + widgetCount rows'"
  by (simp add: widgetCount_def)

lemma widgetCount_addModelMonitoring:
  "widgetCount (appended this (addModelMonitoring modelName modelId props this)) =
     (if ToBoolean (inputTokenPrice props) \<and> ToBoolean (outputTokenPrice props)
      then 12 else 11)"
  by (simp add: addModelMonitoring_defs widgetCount_def)

lemma metric_periods_addModelMonitoring:
  "map (map (\<lambda>m. (m_metricName m, m_period m)) \<circ> metrics_of)
       (appended this (addModelMonitoring modelName modelId props this)) =
     (let p = (case period props of Some p \<Rightarrow> p | None \<Rightarrow> Duration_minutes 1) in
      [[],
       [(''InvocationLatency'', p), (''InvocationLatency'', p), (''InvocationLatency'', p)],
       [(''InputTokenCount'', p), (''OutputTokenCount'', p)]
         @ (if ToBoolean (inputTokenPrice props) \<and> ToBoolean (outputTokenPrice props)
            then [(''InputTokenCount'', Duration_minutes 5),
                  (''OutputTokenCount'', Duration_minutes 5),
                  (''InputTokenCount'', Duration_minutes 5),
                  (''OutputTokenCount'', Duration_minutes 5)]
            else []),
       [(''Invocations'', p), (''InvocationClientErrors'', p),
        (''InvocationServerErrors'', p), (''InvocationThrottles'', p),
        (''LegacyModelInvocations'', p), (''OutputImageCount'', p)]])"
  by (simp add: addModelMonitoring_defs modelMetric_defs)



lemma outputImageCount_dimension_addModelMonitoring:
  "map m_dimensionsMap
     (filter (\<lambda>m. m_metricName m = ''OutputImageCount'')
        (concat (map metrics_of
           (appended this (addModelMonitoring modelName modelId props this))))) =
     [Some [(''ModelId'',
             modelId @ ToString (imageSize props) @ ToString (bucketedStepSize props))]]"
  by (simp add: addModelMonitoring_defs modelMetric_defs)

section \<open>Claims about addModelMonitoring\<close>

text \<open>
  Claim C1, as the specification states it: the cost graph \<^verbatim>\<open>Token Cost (USD)\<close> is among
  the appended widgets if and only if \<^verbatim>\<open>inputPrice != null && outputPrice != null\<close>. This
  fails for a price of zero: with \<^verbatim>\<open>inputTokenPrice = 0\<close> and
  \<^verbatim>\<open>outputTokenPrice = 0.015\<close> both prices are given, and the code, which tests them for
  truthiness, adds no cost graph.
\<close>

theorem costWidget_not_iff_prices_given:
  "hasCostWidget
     (appended
        (BedrockCwDashboard ''us-west-2'' ''BedrockDashboardConstruct''
           \<lparr>existingDashboard = None, dashboardName = None\<rparr>)
        (addModelMonitoring ''Model'' ''X''
           \<lparr>period = None, imageSize = None, bucketedStepSize = None,
            inputTokenPrice = Some (Finite False 0 0),
            outputTokenPrice = Some (Finite False 15 (- 3))\<rparr>
           (BedrockCwDashboard ''us-west-2'' ''BedrockDashboardConstruct''
              \<lparr>existingDashboard = None, dashboardName = None\<rparr>)))
   \<noteq> spec_hasCostWidget
       \<lparr>period = None, imageSize = None, bucketedStepSize = None,
        inputTokenPrice = Some (Finite False 0 0),
        outputTokenPrice = Some (Finite False 15 (- 3))\<rparr>"
  by (simp add: hasCostWidget_addModelMonitoring spec_hasCostWidget_def)

text \<open>
  Claim C1, amended: for every call of \<^verbatim>\<open>addModelMonitoring\<close>, the cost graph is among
  the appended widgets if and only if both prices are truthy, that is given and neither zero
  nor \<^verbatim>\<open>NaN\<close>; in particular, when no price is given, the token and cost row holds the
  token-count graph only.
\<close>

theorem costWidget_iff_prices_truthy:
  "(hasCostWidget (appended this (addModelMonitoring modelName modelId props this)) \<longleftrightarrow>
      ToBoolean (inputTokenPrice props) \<and> ToBoolean (outputTokenPrice props))
   \<and> (ToBoolean (inputTokenPrice props) \<and> ToBoolean (outputTokenPrice props) \<longleftrightarrow>
      (\<exists>i p. inputTokenPrice props = Some i \<and> outputTokenPrice props = Some p
         \<and> i \<noteq> NaN \<and> p \<noteq> NaN
         \<and> (\<forall>neg e. i \<noteq> Finite neg 0 e) \<and> (\<forall>neg e. p \<noteq> Finite neg 0 e)))
   \<and> (inputTokenPrice props = None \<and> outputTokenPrice props = None \<longrightarrow>
        map titles_of (appended this (addModelMonitoring modelName modelId props this)) ! 2
          = [''Input and Output Token Counts'']
        \<and> map kinds_of (appended this (addModelMonitoring modelName modelId props this)) ! 2
          = [Graph])"
proof -
  have truthy: "Number_toBoolean x \<longleftrightarrow> x \<noteq> NaN \<and> (\<forall>neg e. x \<noteq> Finite neg 0 e)" for x
    by (cases x) auto
  have "ToBoolean (inputTokenPrice props) \<and> ToBoolean (outputTokenPrice props) \<longleftrightarrow>
      (\<exists>i p. inputTokenPrice props = Some i \<and> outputTokenPrice props = Some p
         \<and> i \<noteq> NaN \<and> p \<noteq> NaN
         \<and> (\<forall>neg e. i \<noteq> Finite neg 0 e) \<and> (\<forall>neg e. p \<noteq> Finite neg 0 e))"
    by (cases "inputTokenPrice props"; cases "outputTokenPrice props")
       (auto simp: truthy)
  then show ?thesis
    by (simp add: hasCostWidget_addModelMonitoring titles_addModelMonitoring
        kinds_addModelMonitoring)
qed

theorem costWidget_iff_prices_truthy_witness:
  "inputTokenPrice
     \<lparr>period = None, imageSize = None, bucketedStepSize = None,
      inputTokenPrice = None, outputTokenPrice = None\<rparr> = None
   \<and> outputTokenPrice
     \<lparr>period = None, imageSize = None, bucketedStepSize = None,
      inputTokenPrice = None, outputTokenPrice = None\<rparr> = None
   \<and> \<not> hasCostWidget
       (appended
          (BedrockCwDashboard ''us-west-2'' ''BedrockDashboardConstruct''
             \<lparr>existingDashboard = None, dashboardName = None\<rparr>)
          (addModelMonitoring ''claude3haiku'' ''anthropic.claude-3-haiku-20240307-v1:0''
             \<lparr>period = None, imageSize = None, bucketedStepSize = None,
              inputTokenPrice = None, outputTokenPrice = None\<rparr>
             (BedrockCwDashboard ''us-west-2'' ''BedrockDashboardConstruct''
                \<lparr>existingDashboard = None, dashboardName = None\<rparr>)))
   \<and> map kinds_of
       (appended
          (BedrockCwDashboard ''us-west-2'' ''BedrockDashboardConstruct''
             \<lparr>existingDashboard = None, dashboardName = None\<rparr>)
          (addModelMonitoring ''claude3haiku'' ''anthropic.claude-3-haiku-20240307-v1:0''
             \<lparr>period = None, imageSize = None, bucketedStepSize = None,
              inputTokenPrice = None, outputTokenPrice = None\<rparr>
             (BedrockCwDashboard ''us-west-2'' ''BedrockDashboardConstruct''
                \<lparr>existingDashboard = None, dashboardName = None\<rparr>))) ! 2 = [Graph]"
  using costWidget_iff_prices_truthy
    [of "BedrockCwDashboard ''us-west-2'' ''BedrockDashboardConstruct''
           \<lparr>existingDashboard = None, dashboardName = None\<rparr>"
        "''claude3haiku''" "''anthropic.claude-3-haiku-20240307-v1:0''"
        "\<lparr>period = None, imageSize = None, bucketedStepSize = None,
          inputTokenPrice = None, outputTokenPrice = None\<rparr>"]
  by simp

text \<open>
  Claim C2: for every model identifier, display name and configuration,
  \<^verbatim>\<open>addModelMonitoring\<close> keeps the rows of the dashboard and appends exactly four rows, in
  this order: the title text; three single-value latency tiles (average, minimum, maximum);
  the token-count graph, input tokens on the left axis and output tokens on the right,
  followed by the cost graph when there is one; six single-value tiles (invocations, client
  errors, server errors, throttles, legacy invocations, output images).
\<close>

theorem addModelMonitoring_appends_four_rows:
  "d_rows (dashboard (addModelMonitoring modelName modelId props this)) =
     d_rows (dashboard this) @ appended this (addModelMonitoring modelName modelId props this)
   \<and> length (appended this (addModelMonitoring modelName modelId props this)) = 4
   \<and> map isRow (appended this (addModelMonitoring modelName modelId props this)) =
       [True, True, True, True]
   \<and> map kinds_of (appended this (addModelMonitoring modelName modelId props this)) =
       [[Text],
        [SingleValue, SingleValue, SingleValue],
        Graph # (if hasCostWidget
                      (appended this (addModelMonitoring modelName modelId props this))
                 then [Graph] else []),
        [SingleValue, SingleValue, SingleValue, SingleValue, SingleValue, SingleValue]]
   \<and> map titles_of (appended this (addModelMonitoring modelName modelId props this)) =
       [[''# '' @ modelName],
        [''Average Latency'', ''Min Latency'', ''Max Latency''],
        ''Input and Output Token Counts''
          # (if hasCostWidget
                  (appended this (addModelMonitoring modelName modelId props this))
             then [''Token Cost (USD)''] else []),
        [''Invocations'', ''Client Errors'', ''Server Errors'', ''Throttled invocations'',
         ''Legacy invocations'', ''OutputImageCount'']]
   \<and> map (map (\<lambda>m. (m_metricName m, m_statistic m)) \<circ> metrics_of)
         (appended this (addModelMonitoring modelName modelId props this)) =
       [[],
        [(''InvocationLatency'', Stats_AVERAGE), (''InvocationLatency'', Stats_MINIMUM),
         (''InvocationLatency'', Stats_MAXIMUM)],
        [(''InputTokenCount'', Stats_SUM), (''OutputTokenCount'', Stats_SUM)]
          @ (if hasCostWidget
                  (appended this (addModelMonitoring modelName modelId props this))
             then [(''InputTokenCount'', Stats_SUM), (''OutputTokenCount'', Stats_SUM),
                   (''InputTokenCount'', Stats_SUM), (''OutputTokenCount'', Stats_SUM)]
             else []),
        [(''Invocations'', Stats_SUM), (''InvocationClientErrors'', Stats_SUM),
         (''InvocationServerErrors'', Stats_SUM), (''InvocationThrottles'', Stats_SUM),
         (''LegacyModelInvocations'', Stats_SUM), (''OutputImageCount'', Stats_SUM)]]
   \<and> map (map axes_of \<circ> graphs_of)
         (appended this (addModelMonitoring modelName modelId props this)) ! 2 =
       ([''InputTokenCount''], [''OutputTokenCount''])
         # (if hasCostWidget
                 (appended this (addModelMonitoring modelName modelId props this))
            then [([''Input Token Cost'', ''Output Token Cost''], [''Total Cost''])]
            else [])"
  unfolding hasCostWidget_addModelMonitoring
  by (simp only: addModelMonitoring_rows [symmetric] length_appended_addModelMonitoring
      isRow_addModelMonitoring kinds_addModelMonitoring titles_addModelMonitoring
      metrics_addModelMonitoring axes_addModelMonitoring) simp

theorem addModelMonitoring_appends_four_rows_witness:
  "length
     (appended
        (BedrockCwDashboard ''us-west-2'' ''BedrockDashboardConstruct''
           \<lparr>existingDashboard = None, dashboardName = None\<rparr>)
        (addModelMonitoring ''Claude 3.5 Sonnet v2''
           ''anthropic.claude-3-5-sonnet-20241022-v2:0''
           \<lparr>period = Some (Duration_minutes 1), imageSize = None, bucketedStepSize = None,
            inputTokenPrice = Some (Finite False 3 (- 3)),
            outputTokenPrice = Some (Finite False 15 (- 3))\<rparr>
           (BedrockCwDashboard ''us-west-2'' ''BedrockDashboardConstruct''
              \<lparr>existingDashboard = None, dashboardName = None\<rparr>))) = 4
   \<and> map titles_of
       (appended
          (BedrockCwDashboard ''us-west-2'' ''BedrockDashboardConstruct''
             \<lparr>existingDashboard = None, dashboardName = None\<rparr>)
          (addModelMonitoring ''Claude 3.5 Sonnet v2''
             ''anthropic.claude-3-5-sonnet-20241022-v2:0''
             \<lparr>period = Some (Duration_minutes 1), imageSize = None,
              bucketedStepSize = None,
              inputTokenPrice = Some (Finite False 3 (- 3)),
              outputTokenPrice = Some (Finite False 15 (- 3))\<rparr>
             (BedrockCwDashboard ''us-west-2'' ''BedrockDashboardConstruct''
                \<lparr>existingDashboard = None, dashboardName = None\<rparr>))) =
     [[''# Claude 3.5 Sonnet v2''],
      [''Average Latency'', ''Min Latency'', ''Max Latency''],
      [''Input and Output Token Counts'', ''Token Cost (USD)''],
      [''Invocations'', ''Client Errors'', ''Server Errors'', ''Throttled invocations'',
       ''Legacy invocations'', ''OutputImageCount'']]"
proof -
  note r = addModelMonitoring_appends_four_rows
    [of "''Claude 3.5 Sonnet v2''" "''anthropic.claude-3-5-sonnet-20241022-v2:0''"
        "\<lparr>period = Some (Duration_minutes 1), imageSize = None, bucketedStepSize = None,
          inputTokenPrice = Some (Finite False 3 (- 3)),
          outputTokenPrice = Some (Finite False 15 (- 3))\<rparr>"
        "BedrockCwDashboard ''us-west-2'' ''BedrockDashboardConstruct''
           \<lparr>existingDashboard = None, dashboardName = None\<rparr>"]
  note len = conjunct1 [OF conjunct2 [OF r]]
  note titles = conjunct1 [OF conjunct2 [OF conjunct2 [OF conjunct2 [OF conjunct2 [OF r]]]]]
  have cost: "hasCostWidget
     (appended
        (BedrockCwDashboard ''us-west-2'' ''BedrockDashboardConstruct''
           \<lparr>existingDashboard = None, dashboardName = None\<rparr>)
        (addModelMonitoring ''Claude 3.5 Sonnet v2''
           ''anthropic.claude-3-5-sonnet-20241022-v2:0''
           \<lparr>period = Some (Duration_minutes 1), imageSize = None, bucketedStepSize = None,
            inputTokenPrice = Some (Finite False 3 (- 3)),
            outputTokenPrice = Some (Finite False 15 (- 3))\<rparr>
           (BedrockCwDashboard ''us-west-2'' ''BedrockDashboardConstruct''
              \<lparr>existingDashboard = None, dashboardName = None\<rparr>)))"
    by (simp add: hasCostWidget_addModelMonitoring)
  show ?thesis
    by (rule conjI [OF len]) (simp only: titles cost if_True append_Cons append_Nil)
qed

text \<open>
  Claim C3: whether \<^verbatim>\<open>addModelMonitoring\<close> adds the cost graph is a function of the
  truthiness of the two prices and of nothing else: it adds it exactly when both are truthy,
  and two calls whose prices agree in truthiness agree on the cost graph, whatever their
  other arguments and the dashboards they work on.
\<close>

theorem costWidget_depends_on_truthiness_only:
  assumes "ToBoolean (inputTokenPrice props) = ToBoolean (inputTokenPrice props')"
    and "ToBoolean (outputTokenPrice props) = ToBoolean (outputTokenPrice props')"
  shows "hasCostWidget (appended this (addModelMonitoring modelName modelId props this)) =
           hasCostWidget (appended this' (addModelMonitoring modelName' modelId' props' this'))
         \<and> hasCostWidget (appended this (addModelMonitoring modelName modelId props this)) =
           (ToBoolean (inputTokenPrice props) \<and> ToBoolean (outputTokenPrice props))"
  using assms by (simp add: hasCostWidget_addModelMonitoring)

theorem costWidget_depends_on_truthiness_only_witness:
  "ToBoolean (inputTokenPrice
       \<lparr>period = None, imageSize = None, bucketedStepSize = None,
        inputTokenPrice = Some (Finite False 3 (- 3)),
        outputTokenPrice = Some (Finite False 15 (- 3))\<rparr>)
     = ToBoolean (inputTokenPrice
       \<lparr>period = Some (Duration 5 Minutes), imageSize = Some ''512x512'',
        bucketedStepSize = Some ''50'',
        inputTokenPrice = Some (Finite False 25 (- 5)),
        outputTokenPrice = Some (Finite False 125 (- 5))\<rparr>)
   \<and> ToBoolean (outputTokenPrice
       \<lparr>period = None, imageSize = None, bucketedStepSize = None,
        inputTokenPrice = Some (Finite False 3 (- 3)),
        outputTokenPrice = Some (Finite False 15 (- 3))\<rparr>)
     = ToBoolean (outputTokenPrice
       \<lparr>period = Some (Duration 5 Minutes), imageSize = Some ''512x512'',
        bucketedStepSize = Some ''50'',
        inputTokenPrice = Some (Finite False 25 (- 5)),
        outputTokenPrice = Some (Finite False 125 (- 5))\<rparr>)
   \<and> hasCostWidget
       (appended
          (BedrockCwDashboard ''us-west-2'' ''BedrockDashboardConstruct''
             \<lparr>existingDashboard = None, dashboardName = None\<rparr>)
          (addModelMonitoring ''Claude 3.7 Sonnet''
             ''us.anthropic.claude-3-7-sonnet-20250219-v1:0''
             \<lparr>period = None, imageSize = None, bucketedStepSize = None,
              inputTokenPrice = Some (Finite False 3 (- 3)),
              outputTokenPrice = Some (Finite False 15 (- 3))\<rparr>
             (BedrockCwDashboard ''us-west-2'' ''BedrockDashboardConstruct''
                \<lparr>existingDashboard = None, dashboardName = None\<rparr>)))
     = hasCostWidget
       (appended
          (BedrockCwDashboard ''eu-west-1'' ''Other''
             \<lparr>existingDashboard = None, dashboardName = Some ''Mine''\<rparr>)
          (addModelMonitoring ''Haiku'' ''anthropic.claude-3-haiku-20240307-v1:0''
             \<lparr>period = Some (Duration 5 Minutes), imageSize = Some ''512x512'',
              bucketedStepSize = Some ''50'',
              inputTokenPrice = Some (Finite False 25 (- 5)),
              outputTokenPrice = Some (Finite False 125 (- 5))\<rparr>
             (BedrockCwDashboard ''eu-west-1'' ''Other''
                \<lparr>existingDashboard = None, dashboardName = Some ''Mine''\<rparr>)))"
proof -
  have h1: "ToBoolean (inputTokenPrice
       \<lparr>period = None, imageSize = None, bucketedStepSize = None,
        inputTokenPrice = Some (Finite False 3 (- 3)),
        outputTokenPrice = Some (Finite False 15 (- 3))\<rparr>)
     = ToBoolean (inputTokenPrice
       \<lparr>period = Some (Duration 5 Minutes), imageSize = Some ''512x512'',
        bucketedStepSize = Some ''50'',
        inputTokenPrice = Some (Finite False 25 (- 5)),
        outputTokenPrice = Some (Finite False 125 (- 5))\<rparr>)"
    by simp
  have h2: "ToBoolean (outputTokenPrice
       \<lparr>period = None, imageSize = None, bucketedStepSize = None,
        inputTokenPrice = Some (Finite False 3 (- 3)),
        outputTokenPrice = Some (Finite False 15 (- 3))\<rparr>)
     = ToBoolean (outputTokenPrice
       \<lparr>period = Some (Duration 5 Minutes), imageSize = Some ''512x512'',
        bucketedStepSize = Some ''50'',
        inputTokenPrice = Some (Finite False 25 (- 5)),
        outputTokenPrice = Some (Finite False 125 (- 5))\<rparr>)"
    by simp
  note r = costWidget_depends_on_truthiness_only [OF h1 h2,
        of "BedrockCwDashboard ''us-west-2'' ''BedrockDashboardConstruct''
              \<lparr>existingDashboard = None, dashboardName = None\<rparr>"
           "''Claude 3.7 Sonnet''" "''us.anthropic.claude-3-7-sonnet-20250219-v1:0''"
           "BedrockCwDashboard ''eu-west-1'' ''Other''
              \<lparr>existingDashboard = None, dashboardName = Some ''Mine''\<rparr>"
           "''Haiku''" "''anthropic.claude-3-haiku-20240307-v1:0''"]
  show ?thesis
    by (rule conjI [OF h1 conjI [OF h2 conjunct1 [OF r]]])
qed

text \<open>
  Claim C4: with \<^verbatim>\<open>modelId = "X"\<close>, \<^verbatim>\<open>inputTokenPrice = 0.003\<close>,
  \<^verbatim>\<open>outputTokenPrice = 0.015\<close> and no period, the token and cost row holds the token-count
  graph and the cost graph, and the cost graph has exactly three series, each a math
  expression: on the left axis the input cost \<^verbatim>\<open>inputTokens / 1000 * 0.003\<close> over the
  input-token sum of the model and the output cost \<^verbatim>\<open>outputTokens / 1000 * 0.015\<close> over
  its output-token sum, on the right axis the total, the sum of the two expressions. The
  expressions are built without a period, so they and the metrics inside them have the five
  minutes of the library.
\<close>

theorem cost_row_for_prices_0_003_and_0_015:
  "map kinds_of
     (appended this
        (addModelMonitoring modelName ''X''
           \<lparr>period = None, imageSize = None, bucketedStepSize = None,
            inputTokenPrice = Some (Finite False 3 (- 3)),
            outputTokenPrice = Some (Finite False 15 (- 3))\<rparr> this)) ! 2 = [Graph, Graph]
   \<and> map (\<lambda>c. (g_left c, g_right c))
       (costWidgets_of
          (appended this
             (addModelMonitoring modelName ''X''
                \<lparr>period = None, imageSize = None, bucketedStepSize = None,
                 inputTokenPrice = Some (Finite False 3 (- 3)),
                 outputTokenPrice = Some (Finite False 15 (- 3))\<rparr> this) ! 2)) =
       [([MathExpression
            \<lparr>e_expression = ''inputTokens / 1000 * 0.003'',
             e_usingMetrics =
               [(''inputTokens'',
                 \<lparr>m_namespace = ''AWS/Bedrock'', m_metricName = ''InputTokenCount'',
                  m_dimensionsMap = Some [(''ModelId'', ''X'')],
                  m_statistic = Stats_SUM, m_period = Duration_minutes 5,
                  m_color = None, m_label = None\<rparr>)],
             e_label = ''Input Token Cost'',
             e_period = Some (Duration_minutes 5)\<rparr>,
          MathExpression
            \<lparr>e_expression = ''outputTokens / 1000 * 0.015'',
             e_usingMetrics =
               [(''outputTokens'',
                 \<lparr>m_namespace = ''AWS/Bedrock'', m_metricName = ''OutputTokenCount'',
                  m_dimensionsMap = Some [(''ModelId'', ''X'')],
                  m_statistic = Stats_SUM, m_period = Duration_minutes 5,
                  m_color = None, m_label = None\<rparr>)],
             e_label = ''Output Token Cost'',
             e_period = Some (Duration_minutes 5)\<rparr>],
         Some
           [MathExpression
              \<lparr>e_expression = ''inputTokens / 1000 * 0.003 + outputTokens / 1000 * 0.015'',
               e_usingMetrics =
                 [(''inputTokens'',
                   \<lparr>m_namespace = ''AWS/Bedrock'', m_metricName = ''InputTokenCount'',
                    m_dimensionsMap = Some [(''ModelId'', ''X'')],
                    m_statistic = Stats_SUM, m_period = Duration_minutes 5,
                    m_color = None, m_label = None\<rparr>),
                  (''outputTokens'',
                   \<lparr>m_namespace = ''AWS/Bedrock'', m_metricName = ''OutputTokenCount'',
                    m_dimensionsMap = Some [(''ModelId'', ''X'')],
                    m_statistic = Stats_SUM, m_period = Duration_minutes 5,
                    m_color = None, m_label = None\<rparr>)],
               e_label = ''Total Cost'',
               e_period = Some (Duration_minutes 5)\<rparr>])]"
proof -
  have input_price: "Number_toString (Finite False 3 (- 3)) = ''0.003''"
    by code_simp
  have output_price: "Number_toString (Finite False 15 (- 3)) = ''0.015''"
    by code_simp
  have kinds: "map kinds_of
     (appended this
        (addModelMonitoring modelName ''X''
           \<lparr>period = None, imageSize = None, bucketedStepSize = None,
            inputTokenPrice = Some (Finite False 3 (- 3)),
            outputTokenPrice = Some (Finite False 15 (- 3))\<rparr> this)) ! 2 = [Graph, Graph]"
    by (simp add: kinds_addModelMonitoring)
  show ?thesis
    by (rule conjI [OF kinds])
       (simp add: addModelMonitoring_defs modelMetric_defs input_price output_price
          del: Number_toString.simps)
qed

text \<open>
  Claim C5: two calls of \<^verbatim>\<open>addModelMonitoring\<close> with the same arguments append the same
  rows twice, after the rows that the dashboard had: nothing is dropped, changed or merged,
  and the second call adds as many widgets as the first.
\<close>

theorem addModelMonitoring_twice_appends_twice:
  "d_rows (dashboard
       (addModelMonitoring modelName modelId props
          (addModelMonitoring modelName modelId props this))) =
     d_rows (dashboard this)
       @ appended this (addModelMonitoring modelName modelId props this)
       @ appended this (addModelMonitoring modelName modelId props this)
   \<and> d_rows (dashboard (addModelMonitoring modelName modelId props this)) =
     d_rows (dashboard this)
       @ appended this (addModelMonitoring modelName modelId props this)
   \<and> widgetCount (d_rows (dashboard (addModelMonitoring modelName modelId props this))) =
     widgetCount (d_rows (dashboard this))
       + widgetCount (appended this (addModelMonitoring modelName modelId props this))
   \<and> widgetCount
       (d_rows (dashboard
          (addModelMonitoring modelName modelId props
             (addModelMonitoring modelName modelId props this)))) =
     widgetCount (d_rows (dashboard this))
       + 2 * widgetCount (appended this (addModelMonitoring modelName modelId props this))
   \<and> 0 < widgetCount (appended this (addModelMonitoring modelName modelId props this))"
proof -
  let ?once = "addModelMonitoring modelName modelId props this"
  let ?twice = "addModelMonitoring modelName modelId props ?once"
  have once: "d_rows (dashboard ?once) = d_rows (dashboard this) @ appended this ?once"
    by (rule addModelMonitoring_rows)
  have "d_rows (dashboard ?twice) = d_rows (dashboard ?once) @ appended ?once ?twice"
    by (rule addModelMonitoring_rows)
  also have "appended ?once ?twice = appended this ?once"
    by (rule appended_addModelMonitoring_any)
  finally have twice:
    "d_rows (dashboard ?twice) =
       d_rows (dashboard this) @ appended this ?once @ appended this ?once"
    by (simp add: once)
  have count1: "widgetCount (d_rows (dashboard ?once)) =
      widgetCount (d_rows (dashboard this)) + widgetCount (appended this ?once)"
    by (subst once) (rule widgetCount_append)
  have count2: "widgetCount (d_rows (dashboard ?twice)) =
      widgetCount (d_rows (dashboard this)) + 2 * widgetCount (appended this ?once)"
    by (subst twice) (simp add: widgetCount_append)
  have pos: "0 < widgetCount (appended this ?once)"
    by (simp add: widgetCount_addModelMonitoring)
  from twice once count1 count2 pos show ?thesis
    by (intro conjI)
qed

theorem addModelMonitoring_twice_appends_twice_witness:
  "widgetCount
     (d_rows (dashboard
        (addModelMonitoring ''Claude 3.7 Sonnet''
           ''us.anthropic.claude-3-7-sonnet-20250219-v1:0''
           \<lparr>period = Some (Duration_minutes 1), imageSize = None, bucketedStepSize = None,
            inputTokenPrice = Some (Finite False 3 (- 3)),
            outputTokenPrice = Some (Finite False 15 (- 3))\<rparr>
           (BedrockCwDashboard ''us-west-2'' ''BedrockDashboardConstruct''
              \<lparr>existingDashboard = None, dashboardName = None\<rparr>)))) = 12
   \<and> widgetCount
       (d_rows (dashboard
          (addModelMonitoring ''Claude 3.7 Sonnet''
             ''us.anthropic.claude-3-7-sonnet-20250219-v1:0''
             \<lparr>period = Some (Duration_minutes 1), imageSize = None,
              bucketedStepSize = None,
              inputTokenPrice = Some (Finite False 3 (- 3)),
              outputTokenPrice = Some (Finite False 15 (- 3))\<rparr>
             (addModelMonitoring ''Claude 3.7 Sonnet''
                ''us.anthropic.claude-3-7-sonnet-20250219-v1:0''
                \<lparr>period = Some (Duration_minutes 1), imageSize = None,
                 bucketedStepSize = None,
                 inputTokenPrice = Some (Finite False 3 (- 3)),
                 outputTokenPrice = Some (Finite False 15 (- 3))\<rparr>
                (BedrockCwDashboard ''us-west-2'' ''BedrockDashboardConstruct''
                   \<lparr>existingDashboard = None, dashboardName = None\<rparr>))))) = 24"
proof -
  note r = addModelMonitoring_twice_appends_twice
    [of "''Claude 3.7 Sonnet''" "''us.anthropic.claude-3-7-sonnet-20250219-v1:0''"
        "\<lparr>period = Some (Duration_minutes 1), imageSize = None, bucketedStepSize = None,
          inputTokenPrice = Some (Finite False 3 (- 3)),
          outputTokenPrice = Some (Finite False 15 (- 3))\<rparr>"
        "BedrockCwDashboard ''us-west-2'' ''BedrockDashboardConstruct''
           \<lparr>existingDashboard = None, dashboardName = None\<rparr>"]
  note once = conjunct1 [OF conjunct2 [OF conjunct2 [OF r]]]
  note twice = conjunct1 [OF conjunct2 [OF conjunct2 [OF conjunct2 [OF r]]]]
  have empty: "widgetCount
      (d_rows (dashboard
         (BedrockCwDashboard ''us-west-2'' ''BedrockDashboardConstruct''
            \<lparr>existingDashboard = None, dashboardName = None\<rparr>))) = 0"
    by (simp add: BedrockCwDashboard_def Let_def widgetCount_def)
  show ?thesis
    by (rule conjI)
       (simp_all only: once twice empty widgetCount_addModelMonitoring, simp_all)
qed




text \<open>
  Claim C9: when \<^verbatim>\<open>imageSize\<close> and \<^verbatim>\<open>bucketedStepSize\<close> are not given, the
  \<^verbatim>\<open>ModelId\<close> dimension of the \<^verbatim>\<open>OutputImageCount\<close> metric is the model identifier
  followed by \<^verbatim>\<open>undefinedundefined\<close>, which is not the model identifier.
\<close>

theorem outputImageCount_dimension_undefined:
  assumes "imageSize props = None" and "bucketedStepSize props = None"
  shows "map m_dimensionsMap
           (filter (\<lambda>m. m_metricName m = ''OutputImageCount'')
              (concat (map metrics_of
                 (appended this (addModelMonitoring modelName modelId props this))))) =
         [Some [(''ModelId'', modelId @ ''undefinedundefined'')]]
       \<and> modelId @ ''undefinedundefined'' \<noteq> modelId"
  using assms by (simp add: outputImageCount_dimension_addModelMonitoring)

theorem outputImageCount_dimension_undefined_witness:
  "imageSize
     \<lparr>period = Some (Duration_minutes 1), imageSize = None, bucketedStepSize = None,
      inputTokenPrice = Some (Finite False 3 (- 3)),
      outputTokenPrice = Some (Finite False 15 (- 3))\<rparr> = None
   \<and> bucketedStepSize
     \<lparr>period = Some (Duration_minutes 1), imageSize = None, bucketedStepSize = None,
      inputTokenPrice = Some (Finite False 3 (- 3)),
      outputTokenPrice = Some (Finite False 15 (- 3))\<rparr> = None
   \<and> map m_dimensionsMap
       (filter (\<lambda>m. m_metricName m = ''OutputImageCount'')
          (concat (map metrics_of
             (appended
                (BedrockCwDashboard ''us-west-2'' ''BedrockDashboardConstruct''
                   \<lparr>existingDashboard = None, dashboardName = None\<rparr>)
                (addModelMonitoring ''Claude 3.7 Sonnet''
                   ''us.anthropic.claude-3-7-sonnet-20250219-v1:0''
                   \<lparr>period = Some (Duration_minutes 1), imageSize = None,
                    bucketedStepSize = None,
                    inputTokenPrice = Some (Finite False 3 (- 3)),
                    outputTokenPrice = Some (Finite False 15 (- 3))\<rparr>
                   (BedrockCwDashboard ''us-west-2'' ''BedrockDashboardConstruct''
                      \<lparr>existingDashboard = None, dashboardName = None\<rparr>)))))) =
       [Some [(''ModelId'',
               ''us.anthropic.claude-3-7-sonnet-20250219-v1:0undefinedundefined'')]]"
proof -
  have h1: "imageSize
     \<lparr>period = Some (Duration_minutes 1), imageSize = None, bucketedStepSize = None,
      inputTokenPrice = Some (Finite False 3 (- 3)),
      outputTokenPrice = Some (Finite False 15 (- 3))\<rparr> = None"
    by simp
  have h2: "bucketedStepSize
     \<lparr>period = Some (Duration_minutes 1), imageSize = None, bucketedStepSize = None,
      inputTokenPrice = Some (Finite False 3 (- 3)),
      outputTokenPrice = Some (Finite False 15 (- 3))\<rparr> = None"
    by simp
  show ?thesis
    using h1 h2 outputImageCount_dimension_undefined [OF h1 h2,
        of "BedrockCwDashboard ''us-west-2'' ''BedrockDashboardConstruct''
              \<lparr>existingDashboard = None, dashboardName = None\<rparr>"
           "''Claude 3.7 Sonnet''" "''us.anthropic.claude-3-7-sonnet-20250219-v1:0''"]
    by simp
qed

section \<open>Facts about addAllModelsMonitoring\<close>

lemmas addAllModelsMonitoring_defs =
  addAllModelsMonitoring_def addWidgets_def appended_def Let_def

lemmas allModelsMetric_defs =
  inputTokensAllModelsMetric_def outputTokensAllModelsMetric_def
  titanEmbedTextV2modelLatencyAvgMetric_def claude35sonnetmodelLatencyAvgMetric_def
  claude35sonnetmodelInvocationsPerMinMetric_def latencyAvgAllModelsMetric_def
  latencyMinAllModelsMetric_def latencyMaxAllModelsMetric_def
  invocationsCountAllModelsMetric_def invocationsClientErrorsAllModelsMetric_def
  invocationsServerErrorsAllModelsMetric_def invocationsThrottlesErrorsMetric_def
  guadrailsInvocationsIntervenedMetric_def guadrailsTextUnitCountTextUnitCountMetric_def

lemma addAllModelsMonitoring_rows:
  "d_rows (dashboard (addAllModelsMonitoring props this)) =
     d_rows (dashboard this) @ appended this (addAllModelsMonitoring props this)"
  by (simp add: addAllModelsMonitoring_defs)



lemma graphs_addAllModelsMonitoring:
  "map (\<lambda>g. (map (\<lambda>m. (m_metricName m, m_period m)) (metrics_of (GraphWidget g)),
               g_period g))
       (concat (map graphs_of (appended this (addAllModelsMonitoring props this)))) =
     (let p = (case period props of Some p \<Rightarrow> p | None \<Rightarrow> Duration_minutes 1) in
      [([(''InputTokenCount'', p), (''OutputTokenCount'', p)], Some p),
       ([(''Invocations'', Duration_minutes 1)], Some (Duration_minutes 1))])"
  by (simp add: addAllModelsMonitoring_defs allModelsMetric_defs)

section \<open>Claims about addAllModelsMonitoring\<close>



text \<open>
  Claim C10: what \<^verbatim>\<open>addAllModelsMonitoring\<close> does depends on the configuration through
  its period only: two configurations with the same period, whatever their prices, image
  size and step size, give the same construct, hence the same appended rows. The graph of
  the Claude 3.5 Sonnet invocations and its metric have the period of one minute under every
  configuration, while the other graph follows the configured period.
\<close>

theorem addAllModelsMonitoring_depends_on_period_only:
  assumes "period props = period props'"
  shows "addAllModelsMonitoring props this = addAllModelsMonitoring props' this
       \<and> appended this (addAllModelsMonitoring props this) =
           appended this (addAllModelsMonitoring props' this)
       \<and> map (\<lambda>g. (map (\<lambda>m. (m_metricName m, m_period m)) (metrics_of (GraphWidget g)),
                    g_period g))
           (concat (map graphs_of (appended this (addAllModelsMonitoring props this)))) =
         [([(''InputTokenCount'',
             case period props of Some p \<Rightarrow> p | None \<Rightarrow> Duration_minutes 1),
            (''OutputTokenCount'',
             case period props of Some p \<Rightarrow> p | None \<Rightarrow> Duration_minutes 1)],
           Some (case period props of Some p \<Rightarrow> p | None \<Rightarrow> Duration_minutes 1)),
          ([(''Invocations'', Duration_minutes 1)], Some (Duration_minutes 1))]
       \<and> m_period claude35sonnetmodelInvocationsPerMinMetric = Duration_minutes 1"
proof -
  have same: "addAllModelsMonitoring props this = addAllModelsMonitoring props' this"
    using assms by (simp add: addAllModelsMonitoring_def)
  have graphs: "map (\<lambda>g. (map (\<lambda>m. (m_metricName m, m_period m)) (metrics_of (GraphWidget g)),
                    g_period g))
           (concat (map graphs_of (appended this (addAllModelsMonitoring props this)))) =
         [([(''InputTokenCount'',
             case period props of Some p \<Rightarrow> p | None \<Rightarrow> Duration_minutes 1),
            (''OutputTokenCount'',
             case period props of Some p \<Rightarrow> p | None \<Rightarrow> Duration_minutes 1)],
           Some (case period props of Some p \<Rightarrow> p | None \<Rightarrow> Duration_minutes 1)),
          ([(''Invocations'', Duration_minutes 1)], Some (Duration_minutes 1))]"
    unfolding graphs_addAllModelsMonitoring by (simp add: Let_def)
  have fixed: "m_period claude35sonnetmodelInvocationsPerMinMetric = Duration_minutes 1"
    by (simp add: claude35sonnetmodelInvocationsPerMinMetric_def)
  from same graphs fixed show ?thesis
    by simp
qed

theorem addAllModelsMonitoring_depends_on_period_only_witness:
  "period
     \<lparr>period = Some (Duration 5 Minutes), imageSize = None, bucketedStepSize = None,
      inputTokenPrice = None, outputTokenPrice = None\<rparr>
     = period
     \<lparr>period = Some (Duration 5 Minutes), imageSize = Some ''512x512'',
      bucketedStepSize = Some ''50'',
      inputTokenPrice = Some (Finite False 3 (- 3)),
      outputTokenPrice = Some (Finite False 15 (- 3))\<rparr>
   \<and> appended
       (BedrockCwDashboard ''us-west-2'' ''BedrockDashboardConstruct''
          \<lparr>existingDashboard = None, dashboardName = None\<rparr>)
       (addAllModelsMonitoring
          \<lparr>period = Some (Duration 5 Minutes), imageSize = None, bucketedStepSize = None,
           inputTokenPrice = None, outputTokenPrice = None\<rparr>
          (BedrockCwDashboard ''us-west-2'' ''BedrockDashboardConstruct''
             \<lparr>existingDashboard = None, dashboardName = None\<rparr>))
     = appended
       (BedrockCwDashboard ''us-west-2'' ''BedrockDashboardConstruct''
          \<lparr>existingDashboard = None, dashboardName = None\<rparr>)
       (addAllModelsMonitoring
          \<lparr>period = Some (Duration 5 Minutes), imageSize = Some ''512x512'',
           bucketedStepSize = Some ''50'',
           inputTokenPrice = Some (Finite False 3 (- 3)),
           outputTokenPrice = Some (Finite False 15 (- 3))\<rparr>
          (BedrockCwDashboard ''us-west-2'' ''BedrockDashboardConstruct''
             \<lparr>existingDashboard = None, dashboardName = None\<rparr>))
   \<and> map (\<lambda>g. (map (\<lambda>m. (m_metricName m, m_period m)) (metrics_of (GraphWidget g)),
                g_period g))
       (concat (map graphs_of
          (appended
             (BedrockCwDashboard ''us-west-2'' ''BedrockDashboardConstruct''
                \<lparr>existingDashboard = None, dashboardName = None\<rparr>)
             (addAllModelsMonitoring
                \<lparr>period = Some (Duration 5 Minutes), imageSize = None,
                 bucketedStepSize = None,
                 inputTokenPrice = None, outputTokenPrice = None\<rparr>
                (BedrockCwDashboard ''us-west-2'' ''BedrockDashboardConstruct''
                   \<lparr>existingDashboard = None, dashboardName = None\<rparr>))))) =
     [([(''InputTokenCount'', Duration 5 Minutes), (''OutputTokenCount'', Duration 5 Minutes)],
       Some (Duration 5 Minutes)),
      ([(''Invocations'', Duration_minutes 1)], Some (Duration_minutes 1))]"
proof -
  have h: "period
     \<lparr>period = Some (Duration 5 Minutes), imageSize = None, bucketedStepSize = None,
      inputTokenPrice = None, outputTokenPrice = None\<rparr>
     = period
     \<lparr>period = Some (Duration 5 Minutes), imageSize = Some ''512x512'',
      bucketedStepSize = Some ''50'',
      inputTokenPrice = Some (Finite False 3 (- 3)),
      outputTokenPrice = Some (Finite False 15 (- 3))\<rparr>"
    by simp
  note r = addAllModelsMonitoring_depends_on_period_only [OF h,
      of "BedrockCwDashboard ''us-west-2'' ''BedrockDashboardConstruct''
            \<lparr>existingDashboard = None, dashboardName = None\<rparr>"]
  have r2: "appended
       (BedrockCwDashboard ''us-west-2'' ''BedrockDashboardConstruct''
          \<lparr>existingDashboard = None, dashboardName = None\<rparr>)
       (addAllModelsMonitoring
          \<lparr>period = Some (Duration 5 Minutes), imageSize = None, bucketedStepSize = None,
           inputTokenPrice = None, outputTokenPrice = None\<rparr>
          (BedrockCwDashboard ''us-west-2'' ''BedrockDashboardConstruct''
             \<lparr>existingDashboard = None, dashboardName = None\<rparr>))
     = appended
       (BedrockCwDashboard ''us-west-2'' ''BedrockDashboardConstruct''
          \<lparr>existingDashboard = None, dashboardName = None\<rparr>)
       (addAllModelsMonitoring
          \<lparr>period = Some (Duration 5 Minutes), imageSize = Some ''512x512'',
           bucketedStepSize = Some ''50'',
           inputTokenPrice = Some (Finite False 3 (- 3)),
           outputTokenPrice = Some (Finite False 15 (- 3))\<rparr>
          (BedrockCwDashboard ''us-west-2'' ''BedrockDashboardConstruct''
             \<lparr>existingDashboard = None, dashboardName = None\<rparr>))"
    by (rule conjunct1 [OF conjunct2 [OF r]])
  have r3: "map (\<lambda>g. (map (\<lambda>m. (m_metricName m, m_period m)) (metrics_of (GraphWidget g)),
                g_period g))
       (concat (map graphs_of
          (appended
             (BedrockCwDashboard ''us-west-2'' ''BedrockDashboardConstruct''
                \<lparr>existingDashboard = None, dashboardName = None\<rparr>)
             (addAllModelsMonitoring
                \<lparr>period = Some (Duration 5 Minutes), imageSize = None,
                 bucketedStepSize = None,
                 inputTokenPrice = None, outputTokenPrice = None\<rparr>
                (BedrockCwDashboard ''us-west-2'' ''BedrockDashboardConstruct''
                   \<lparr>existingDashboard = None, dashboardName = None\<rparr>))))) =
     [([(''InputTokenCount'', Duration 5 Minutes), (''OutputTokenCount'', Duration 5 Minutes)],
       Some (Duration 5 Minutes)),
      ([(''Invocations'', Duration_minutes 1)], Some (Duration_minutes 1))]"
    using conjunct1 [OF conjunct2 [OF conjunct2 [OF r]]] by simp
  show ?thesis
    by (rule conjI [OF h conjI [OF r2 r3]])
qed

section \<open>Claim about the constructor\<close>

text \<open>
  Claim C8: the constructor works on the dashboard it is given when it is given one, and
  creates none then; otherwise it creates exactly one dashboard, named as the caller asks or
  \<^verbatim>\<open>AnyBooksMonitoringDashboard\<close> when the caller gives no name. In both cases it creates
  exactly one output, whose value is the address of the dashboard in the CloudWatch console,
  made of the region of the deployment and of the name of that dashboard.
\<close>

theorem constructor_dashboard_and_output:
  "dashboard (BedrockCwDashboard region id' props) =
     (case existingDashboard props of
        Some existing \<Rightarrow> existing
      | None \<Rightarrow>
          \<lparr>d_dashboardName =
             (case dashboardName props of
                Some name \<Rightarrow> name
              | None \<Rightarrow> ''AnyBooksMonitoringDashboard''),
           d_rows = []\<rparr>)
   \<and> dashboards_created (children (BedrockCwDashboard region id' props)) =
     (case existingDashboard props of
        Some existing \<Rightarrow> []
      | None \<Rightarrow>
          [(''BedrockMetricsDashboard'' @ id',
            case dashboardName props of
              Some name \<Rightarrow> name
            | None \<Rightarrow> ''AnyBooksMonitoringDashboard'')])
   \<and> outputs_created (children (BedrockCwDashboard region id' props)) =
     [(''BedrockMetricsDashboardOutput'' @ id',
       ''https://'' @ region @ ''.console.aws.amazon.com/cloudwatch/home?region='' @ region
         @ ''#dashboards:name=''
         @ d_dashboardName (dashboard (BedrockCwDashboard region id' props)))]
   \<and> length (children (BedrockCwDashboard region id' props)) =
     (case existingDashboard props of Some existing \<Rightarrow> 1 | None \<Rightarrow> 2)"
  by (simp add: BedrockCwDashboard_def Let_def split: option.splits)

theorem constructor_dashboard_and_output_witness:
  "BedrockCwDashboard ''us-west-2'' ''BedrockDashboardConstruct''
     \<lparr>existingDashboard = None, dashboardName = None\<rparr> =
     \<lparr>dashboard = \<lparr>d_dashboardName = ''AnyBooksMonitoringDashboard'', d_rows = []\<rparr>,
      children =
        [Dashboard_new ''BedrockMetricsDashboardBedrockDashboardConstruct''
           ''AnyBooksMonitoringDashboard'',
         CfnOutput ''BedrockMetricsDashboardOutputBedrockDashboardConstruct''
           (''https://us-west-2.console.aws.amazon.com/cloudwatch/home?region=us-west-2''
              @ ''#dashboards:name=AnyBooksMonitoringDashboard'')]\<rparr>
   \<and> outputs_created
       (children
          (BedrockCwDashboard ''us-west-2'' ''BedrockDashboardConstruct''
             \<lparr>existingDashboard = None, dashboardName = None\<rparr>)) =
     [(''BedrockMetricsDashboardOutputBedrockDashboardConstruct'',
       ''https://us-west-2.console.aws.amazon.com/cloudwatch/home?region=us-west-2''
         @ ''#dashboards:name=AnyBooksMonitoringDashboard'')]"
  using constructor_dashboard_and_output
    [of "''us-west-2''" "''BedrockDashboardConstruct''"
        "\<lparr>existingDashboard = None, dashboardName = None\<rparr>"]
  by (simp add: BedrockCwDashboard_def Let_def)

end
